theory Spec2Isabelle
  imports Main "HOL-Library.Sublist"
begin

section \<open>JavaScript values\<close>

text \<open>
  The library is TypeScript, so at run time its inputs are JavaScript values. A string is
  modelled by the bytes of its UTF-8 encoding (\<open>string\<close> is a list of 8-bit characters)
  and a plain object by the list of its own enumerable properties in enumeration order.

  The library never calculates with a number: it converts it to a string, tests its
  truth value, asks for its type and serialises it as JSON. A number is therefore
  modelled by the text that Number::toString gives for it: \<open>''7''\<close>, \<open>''1.5''\<close>,
  \<open>''1152921504606847000''\<close> for two to the power sixty, \<open>''1e+21''\<close>, \<open>''NaN''\<close>,
  \<open>''Infinity''\<close>. Different numbers have different texts, except that 0 and -0 share
  \<open>''0''\<close>, and none of the four operations tells those two apart.
\<close>

datatype jsnumber = Number (Number_toString: string)

datatype jsval =
    JUndefined
  | JNull
  | JBool bool
  | JNum jsnumber
  | JStr string
  | JObj "(string \<times> jsval) list"

type_synonym jsobj = "(string \<times> jsval) list"

text \<open>Property access \<open>obj.key\<close>: a missing property reads as \<open>undefined\<close>.\<close>

definition get_prop :: "jsobj \<Rightarrow> string \<Rightarrow> jsval" where
  "get_prop obj key = (case map_of obj key of None \<Rightarrow> JUndefined | Some v \<Rightarrow> v)"

text \<open>
  ToBoolean, as used by \<open>!x\<close> and \<open>if (x)\<close>. The numbers that are false are 0, -0
  and NaN.
\<close>

fun truthy :: "jsval \<Rightarrow> bool" where
  "truthy JUndefined = False"
| "truthy JNull = False"
| "truthy (JBool b) = b"
| "truthy (JNum n) = (Number_toString n \<noteq> ''0'' \<and> Number_toString n \<noteq> ''NaN'')"
| "truthy (JStr s) = (s \<noteq> [])"
| "truthy (JObj ps) = True"

fun typeof :: "jsval \<Rightarrow> string" where
  "typeof JUndefined = ''undefined''"
| "typeof JNull = ''object''"
| "typeof (JBool b) = ''boolean''"
| "typeof (JNum n) = ''number''"
| "typeof (JStr s) = ''string''"
| "typeof (JObj ps) = ''object''"

subsection \<open>Values as strings\<close>

text \<open>The conversion \<open>String(value)\<close>, which template literals use as well.\<close>

fun js_String :: "jsval \<Rightarrow> string" where
  "js_String JUndefined = ''undefined''"
| "js_String JNull = ''null''"
| "js_String (JBool b) = (if b then ''true'' else ''false'')"
| "js_String (JNum n) = Number_toString n"
| "js_String (JStr s) = s"
| "js_String (JObj ps) = ''[object Object]''"

text \<open>\<open>Array.prototype.join\<close> on an array of strings.\<close>

fun join :: "string \<Rightarrow> string list \<Rightarrow> string" where
  "join sep [] = []"
| "join sep [x] = x"
| "join sep (x # y # ys) = x @ sep @ join sep (y # ys)"

subsection \<open>\<open>String.prototype.trim\<close>\<close>

text \<open>
  The code points that \<open>trim\<close> removes (ECMAScript WhiteSpace and LineTerminator), each
  as its UTF-8 byte sequence: U+0009 to U+000D, U+0020, U+00A0, U+1680, U+2000 to U+200A,
  U+2028, U+2029, U+202F, U+205F, U+3000 and U+FEFF.
\<close>

definition whitespace :: "string list" where
  "whitespace =
    [[CHR 0x09], [CHR 0x0A], [CHR 0x0B], [CHR 0x0C], [CHR 0x0D], [CHR 0x20],
     [CHR 0xC2, CHR 0xA0],
     [CHR 0xE1, CHR 0x9A, CHR 0x80],
     [CHR 0xE2, CHR 0x80, CHR 0x80], [CHR 0xE2, CHR 0x80, CHR 0x81],
     [CHR 0xE2, CHR 0x80, CHR 0x82], [CHR 0xE2, CHR 0x80, CHR 0x83],
     [CHR 0xE2, CHR 0x80, CHR 0x84], [CHR 0xE2, CHR 0x80, CHR 0x85],
     [CHR 0xE2, CHR 0x80, CHR 0x86], [CHR 0xE2, CHR 0x80, CHR 0x87],
     [CHR 0xE2, CHR 0x80, CHR 0x88], [CHR 0xE2, CHR 0x80, CHR 0x89],
     [CHR 0xE2, CHR 0x80, CHR 0x8A],
     [CHR 0xE2, CHR 0x80, CHR 0xA8], [CHR 0xE2, CHR 0x80, CHR 0xA9],
     [CHR 0xE2, CHR 0x80, CHR 0xAF],
     [CHR 0xE2, CHR 0x81, CHR 0x9F],
     [CHR 0xE3, CHR 0x80, CHR 0x80],
     [CHR 0xEF, CHR 0xBB, CHR 0xBF]]"

definition leading_whitespace :: "string \<Rightarrow> string option" where
  "leading_whitespace s = find (\<lambda>p. prefix p s) whitespace"

definition trailing_whitespace :: "string \<Rightarrow> string option" where
  "trailing_whitespace s = find (\<lambda>p. suffix p s) whitespace"

function trimStart :: "string \<Rightarrow> string" where
  "trimStart s =
     (case leading_whitespace s of
        None \<Rightarrow> s
      | Some p \<Rightarrow> trimStart (drop (length p) s))"
  by pat_completeness auto
termination
proof (relation "measure length")
  show "wf (measure length)" by simp
next
  fix s p :: string
  assume "leading_whitespace s = Some p"
  then have "p \<in> set whitespace" and "prefix p s"
    by (auto simp: leading_whitespace_def find_Some_iff)
  then have "p \<noteq> []" and "length p \<le> length s"
    by (auto simp: whitespace_def prefix_length_le)
  then show "(drop (length p) s, s) \<in> measure length"
    by (cases p) auto
qed

function trimEnd :: "string \<Rightarrow> string" where
  "trimEnd s =
     (case trailing_whitespace s of
        None \<Rightarrow> s
      | Some p \<Rightarrow> trimEnd (take (length s - length p) s))"
  by pat_completeness auto
termination
proof (relation "measure length")
  show "wf (measure length)" by simp
next
  fix s p :: string
  assume "trailing_whitespace s = Some p"
  then have "p \<in> set whitespace" and "suffix p s"
    by (auto simp: trailing_whitespace_def find_Some_iff)
  then have "p \<noteq> []" and "length p \<le> length s"
    by (auto simp: whitespace_def suffix_length_le)
  then show "(take (length s - length p) s, s) \<in> measure length"
    by (cases p) auto
qed

declare trimStart.simps [simp del]
declare trimEnd.simps [simp del]

definition trim :: "string \<Rightarrow> string" where
  "trim s = trimEnd (trimStart s)"

section \<open>Errors\<close>

text \<open>
  Every failure the library raises itself is \<open>throw new Error(message)\<close>; \<open>TypeError\<close> is
  what the transport rejects with, and \<open>ZodError\<close> what schema validation raises.
\<close>

datatype js_error = Error string | TypeError string | ZodError string

section \<open>The configuration store and the process-wide state\<close>

type_synonym addr = nat

datatype http_method = GET | POST | PUT | DELETE

record request =
  req_url :: string
  req_method :: http_method
  req_headers :: "(string \<times> string) list"
  req_body :: "string option"

text \<open>
  Configuration objects are shared by reference between the caller, the client instance
  and the module variable \<open>globalConfig\<close>, so they live in a store. \<open>calls\<close> records the
  requests handed to the transport, oldest first.
\<close>

record world =
  globalConfig :: "addr option"
  heap :: "addr \<Rightarrow> jsobj"
  next_addr :: addr
  calls :: "request list"

definition setGlobalConfig :: "addr option \<Rightarrow> world \<Rightarrow> world" where
  "setGlobalConfig config w = w\<lparr>globalConfig := config\<rparr>"

definition getGlobalConfig :: "world \<Rightarrow> addr option" where
  "getGlobalConfig w = globalConfig w"

text \<open>An object literal allocates a fresh object.\<close>

definition new_object :: "jsobj \<Rightarrow> world \<Rightarrow> addr \<times> world" where
  "new_object obj w =
     (next_addr w, w\<lparr>heap := (heap w)(next_addr w := obj), next_addr := Suc (next_addr w)\<rparr>)"

section \<open>The client: construction\<close>

record TickClient =
  this_config :: addr

text \<open>
  One of the three tests of \<open>validateConfig\<close>:
  \<open>!v || typeof v !== "string" || v.trim() === ""\<close>. The last disjunct is evaluated only
  for a string.
\<close>

definition invalid_field :: "jsval \<Rightarrow> bool" where
  "invalid_field v =
     (\<not> truthy v \<or> typeof v \<noteq> ''string'' \<or> (case v of JStr s \<Rightarrow> trim s = [] | _ \<Rightarrow> True))"

text \<open>
  What the caller hands to the constructor: a reference to one of its objects, or any
  other value, \<open>null\<close> and \<open>undefined\<close> included (an object written in place is a value
  here, since nobody else holds it).
\<close>

datatype argument = Value jsval | Reference addr

text \<open>
  Reading \<open>config.key\<close> for one of the three configuration names. On \<open>undefined\<close> and
  \<open>null\<close> the read raises a TypeError, with the message Node gives it; a boolean, a
  number or a string has no property of these names, so the read gives \<open>undefined\<close>.
\<close>

definition read_property :: "argument \<Rightarrow> string \<Rightarrow> world \<Rightarrow> js_error + jsval" where
  "read_property config key w =
     (case config of
        Reference a \<Rightarrow> Inr (get_prop (heap w a) key)
      | Value JUndefined \<Rightarrow>
          Inl (TypeError (''Cannot read properties of undefined (reading '' @
                          [CHR 0x27] @ key @ [CHR 0x27] @ '')''))
      | Value JNull \<Rightarrow>
          Inl (TypeError (''Cannot read properties of null (reading '' @
                          [CHR 0x27] @ key @ [CHR 0x27] @ '')''))
      | Value (JObj ps) \<Rightarrow> Inr (get_prop ps key)
      | Value v \<Rightarrow> Inr JUndefined)"

text \<open>
  \<open>validateConfig\<close> reads the three fields in turn; the first read is the one that can
  raise.
\<close>

definition validateConfig :: "argument \<Rightarrow> world \<Rightarrow> js_error + unit" where
  "validateConfig config w =
     (let errors = [] in
      case read_property config ''subscriptionId'' w of
        Inl e \<Rightarrow> Inl e
      | Inr subscriptionId \<Rightarrow>
     (let errors = (if invalid_field subscriptionId
                    then errors @ [''subscriptionId is required and must be a non-empty string'']
                    else errors) in
      case read_property config ''apiToken'' w of
        Inl e \<Rightarrow> Inl e
      | Inr apiToken \<Rightarrow>
     (let errors = (if invalid_field apiToken
                    then errors @ [''apiToken is required and must be a non-empty string'']
                    else errors) in
      case read_property config ''userAgent'' w of
        Inl e \<Rightarrow> Inl e
      | Inr userAgent \<Rightarrow>
     (let errors = (if invalid_field userAgent
                    then errors @ [''userAgent is required and must be a non-empty string'']
                    else errors)
      in if length errors > 0
         then Inl (Error (''Invalid TickClient configuration: '' @ join '', '' errors))
         else Inr ()))))"

text \<open>
  The constructor validates, then builds \<open>this.config\<close> as a new object from three
  further reads of the argument.
\<close>

definition TickClient_constructor :: "argument \<Rightarrow> world \<Rightarrow> (js_error + TickClient) \<times> world" where
  "TickClient_constructor config w =
     (case validateConfig config w of
        Inl e \<Rightarrow> (Inl e, w)
      | Inr _ \<Rightarrow>
     (case read_property config ''subscriptionId'' w of
        Inl e \<Rightarrow> (Inl e, w)
      | Inr subscriptionId \<Rightarrow>
     (case read_property config ''apiToken'' w of
        Inl e \<Rightarrow> (Inl e, w)
      | Inr apiToken \<Rightarrow>
     (case read_property config ''userAgent'' w of
        Inl e \<Rightarrow> (Inl e, w)
      | Inr userAgent \<Rightarrow>
     (case new_object
             [(''subscriptionId'', subscriptionId), (''apiToken'', apiToken),
              (''userAgent'', userAgent)] w of
        (a, w') \<Rightarrow> (Inr \<lparr>this_config = a\<rparr>, w'))))))"

section \<open>Serialisation: JSON and URL query strings\<close>

definition hex_digit :: "string \<Rightarrow> nat \<Rightarrow> char" where
  "hex_digit alphabet n = alphabet ! (n mod 16)"

definition hex_byte :: "string \<Rightarrow> char \<Rightarrow> string" where
  "hex_byte alphabet c =
     [hex_digit alphabet (of_char c div 16), hex_digit alphabet (of_char c)]"

text \<open>
  QuoteJSONString: the quote and the backslash are escaped, the control characters below
  U+0020 are written as their short escape or as a lower-case \<open>u\<close> escape.
\<close>

definition json_escape :: "char \<Rightarrow> string" where
  "json_escape c =
     (if c = CHR 0x22 then [CHR 0x5C, CHR 0x22]
      else if c = CHR 0x5C then [CHR 0x5C, CHR 0x5C]
      else if c = CHR 0x08 then [CHR 0x5C, CHR ''b'']
      else if c = CHR 0x0C then [CHR 0x5C, CHR ''f'']
      else if c = CHR 0x0A then [CHR 0x5C, CHR ''n'']
      else if c = CHR 0x0D then [CHR 0x5C, CHR ''r'']
      else if c = CHR 0x09 then [CHR 0x5C, CHR ''t'']
      else if (of_char c :: nat) < 0x20 then [CHR 0x5C, CHR ''u'', CHR ''0'', CHR ''0''] @ hex_byte ''0123456789abcdef'' c
      else [c])"

definition QuoteJSONString :: "string \<Rightarrow> string" where
  "QuoteJSONString s = [CHR 0x22] @ concat (map json_escape s) @ [CHR 0x22]"

text \<open>
  \<open>JSON.stringify\<close>: \<open>undefined\<close> has no serialisation (the result is \<open>undefined\<close>,
  here \<open>None\<close>), and a property whose value has none is left out of its object. A
  finite number is written as Number::toString writes it, and NaN and the infinities
  as \<open>null\<close>.
\<close>

fun JSON_stringify :: "jsval \<Rightarrow> string option"
  and JSON_properties :: "(string \<times> jsval) list \<Rightarrow> string list" where
  "JSON_stringify JUndefined = None"
| "JSON_stringify JNull = Some ''null''"
| "JSON_stringify (JBool b) = Some (if b then ''true'' else ''false'')"
| "JSON_stringify (JNum n) =
     Some (if Number_toString n \<in> set [''NaN'', ''Infinity'', ''-Infinity'']
           then ''null'' else Number_toString n)"
| "JSON_stringify (JStr s) = Some (QuoteJSONString s)"
| "JSON_stringify (JObj ps) = Some (''{'' @ join '','' (JSON_properties ps) @ ''}'')"
| "JSON_properties [] = []"
| "JSON_properties ((k, v) # ps) =
     (case JSON_stringify v of
        None \<Rightarrow> JSON_properties ps
      | Some s \<Rightarrow> (QuoteJSONString k @ '':'' @ s) # JSON_properties ps)"

text \<open>
  The serialiser behind \<open>URLSearchParams.toString\<close> (application/x-www-form-urlencoded):
  letters, digits and \<open>* - . _\<close> stay, a space becomes \<open>+\<close>, every other byte is
  percent-encoded with upper-case hexadecimal digits.
\<close>

definition urlencoded_plain :: "char \<Rightarrow> bool" where
  "urlencoded_plain c =
     (let n = (of_char c :: nat)
      in n = 0x2A \<or> n = 0x2D \<or> n = 0x2E \<or> n = 0x5F \<or>
         (0x30 \<le> n \<and> n \<le> 0x39) \<or> (0x41 \<le> n \<and> n \<le> 0x5A) \<or> (0x61 \<le> n \<and> n \<le> 0x7A))"

definition urlencode_byte :: "char \<Rightarrow> string" where
  "urlencode_byte c =
     (if c = CHR 0x20 then ''+''
      else if urlencoded_plain c then [c]
      else CHR ''%'' # hex_byte ''0123456789ABCDEF'' c)"

definition urlencode :: "string \<Rightarrow> string" where
  "urlencode s = concat (map urlencode_byte s)"

definition URLSearchParams_toString :: "(string \<times> string) list \<Rightarrow> string" where
  "URLSearchParams_toString queryParams =
     join ''&'' (map (\<lambda>(name, val). urlencode name @ ''='' @ urlencode val) queryParams)"

section \<open>Request helpers (\<open>api/util.ts\<close>)\<close>

definition BASE_URL :: string where
  "BASE_URL = ''https://www.tickspot.com''"

definition API_VERSION :: string where
  "API_VERSION = ''v2''"

definition not_set :: js_error where
  "not_set = Error ''Global configuration is not set. Please call setGlobalConfig() first.''"

text \<open>
  \<open>createHeaders(includeContentType = true)\<close>: the argument is \<open>None\<close> when the caller
  passes none. Header values are strings on the wire, so the two configuration values are
  converted as the transport's header list converts them.
\<close>

definition createHeaders :: "bool option \<Rightarrow> world \<Rightarrow> js_error + (string \<times> string) list" where
  "createHeaders arg w =
     (let includeContentType = (case arg of None \<Rightarrow> True | Some b \<Rightarrow> b)
      in case globalConfig w of
           None \<Rightarrow> Inl not_set
         | Some c \<Rightarrow>
             (let hdrs = [(''Authorization'', ''Token token='' @ js_String (get_prop (heap w c) ''apiToken'')),
                          (''User-Agent'', js_String (get_prop (heap w c) ''userAgent''))]
              in Inr (if includeContentType
                      then hdrs @ [(''Content-Type'', ''application/json; charset=utf-8'')]
                      else hdrs)))"

definition createUrl :: "string \<Rightarrow> world \<Rightarrow> js_error + string" where
  "createUrl path w =
     (case globalConfig w of
        None \<Rightarrow> Inl not_set
      | Some c \<Rightarrow>
          Inr (BASE_URL @ ''/'' @ js_String (get_prop (heap w c) ''subscriptionId'') @
               ''/api/'' @ API_VERSION @ ''/'' @ path))"

section \<open>The transport and schema validation\<close>

text \<open>
  \<open>fetch\<close> and the schema library are external: the transport answers a request with a
  response or rejects, \<open>response.json()\<close> yields the parsed body or rejects, and
  \<open>schema.parse\<close> returns the validated value or raises.
\<close>

record response =
  res_status :: nat
  res_statusText :: string
  res_json :: "js_error + jsval"

text \<open>\<open>response.ok\<close> is true exactly for the statuses 200 to 299.\<close>

definition res_ok :: "response \<Rightarrow> bool" where
  "res_ok r = (200 \<le> res_status r \<and> res_status r \<le> 299)"

datatype schema =
    User | Users
  | Client | Clients | ClientWithProjects
  | Project | Projects | ProjectWithDetails
  | Task | Tasks | TaskWithDetails
  | Entry | Entries | EntryWithTask

record env =
  transport :: "request \<Rightarrow> js_error + response"
  zod_parse :: "schema \<Rightarrow> jsval \<Rightarrow> js_error + jsval"

type_synonym 'a io = "world \<Rightarrow> (js_error + 'a) \<times> world"

definition bind_io :: "'a io \<Rightarrow> ('a \<Rightarrow> 'b io) \<Rightarrow> 'b io" where
  "bind_io m f w = (case m w of (Inl e, w') \<Rightarrow> (Inl e, w') | (Inr x, w') \<Rightarrow> f x w')"

definition throw :: "js_error \<Rightarrow> 'a io" where
  "throw e w = (Inl e, w)"

definition settle :: "js_error + 'a \<Rightarrow> 'a io" where
  "settle r w = (r, w)"

definition reading :: "(world \<Rightarrow> js_error + 'a) \<Rightarrow> 'a io" where
  "reading f w = (f w, w)"

definition fetch :: "env \<Rightarrow> request \<Rightarrow> response io" where
  "fetch E q w = (transport E q, w\<lparr>calls := calls w @ [q]\<rparr>)"

text \<open>
  The text \<open>${response.status} ${response.statusText}\<close> of the generic failure. The
  status of a response is an unsigned 16-bit integer, which Number::toString prints as
  its decimal digits.
\<close>

fun digits :: "nat \<Rightarrow> string" where
  "digits n = (if n < 10 then [char_of (48 + n)] else digits (n div 10) @ [char_of (48 + n mod 10)])"

declare digits.simps [simp del]

definition status_text :: "response \<Rightarrow> string" where
  "status_text r = digits (res_status r) @ '' '' @ res_statusText r"

text \<open>\<open>const data = await response.json(); return schema.parse(data)\<close>.\<close>

definition parse_body :: "env \<Rightarrow> schema \<Rightarrow> response \<Rightarrow> jsval io" where
  "parse_body E sch r = bind_io (settle (res_json r)) (\<lambda>data. settle (zod_parse E sch data))"

section \<open>The endpoint operations\<close>

subsection \<open>Users (\<open>api/users.ts\<close>)\<close>

definition getUsers :: "env \<Rightarrow> jsval io" where
  "getUsers E =
     bind_io (reading (createUrl ''users.json'')) (\<lambda>url.
     bind_io (reading (createHeaders (Some False))) (\<lambda>hdrs.
     bind_io (fetch E \<lparr>req_url = url, req_method = GET, req_headers = hdrs, req_body = None\<rparr>) (\<lambda>response.
       if \<not> res_ok response
       then throw (Error (''Failed to fetch users: '' @ status_text response))
       else parse_body E Users response)))"

definition getDeletedUsers :: "env \<Rightarrow> jsval io" where
  "getDeletedUsers E =
     bind_io (reading (createUrl ''users/deleted.json'')) (\<lambda>url.
     bind_io (reading (createHeaders (Some False))) (\<lambda>hdrs.
     bind_io (fetch E \<lparr>req_url = url, req_method = GET, req_headers = hdrs, req_body = None\<rparr>) (\<lambda>response.
       if res_status response = 403
       then throw (Error ''Forbidden: Only administrators can access deleted users'')
       else if \<not> res_ok response
       then throw (Error (''Failed to fetch deleted users: '' @ status_text response))
       else parse_body E Users response)))"

definition createUser :: "env \<Rightarrow> jsobj \<Rightarrow> jsval io" where
  "createUser E params =
     bind_io (reading (createUrl ''users.json'')) (\<lambda>url.
     bind_io (reading (createHeaders (Some True))) (\<lambda>hdrs.
     bind_io (fetch E \<lparr>req_url = url, req_method = POST, req_headers = hdrs, req_body = JSON_stringify (JObj [(''user'', JObj params)])\<rparr>) (\<lambda>response.
       if res_status response = 403
       then throw (Error ''Forbidden: Only administrators can create users'')
       else if \<not> res_ok response
       then throw (Error (''Failed to create user: '' @ status_text response))
       else parse_body E User response)))"

subsection \<open>Clients (\<open>api/clients.ts\<close>)\<close>

definition getClients :: "env \<Rightarrow> jsval io" where
  "getClients E =
     bind_io (reading (createUrl ''clients.json'')) (\<lambda>url.
     bind_io (reading (createHeaders (Some False))) (\<lambda>hdrs.
     bind_io (fetch E \<lparr>req_url = url, req_method = GET, req_headers = hdrs, req_body = None\<rparr>) (\<lambda>response.
       if \<not> res_ok response
       then throw (Error (''Failed to fetch clients: '' @ status_text response))
       else parse_body E Clients response)))"

definition getAllClients :: "env \<Rightarrow> jsval io" where
  "getAllClients E =
     bind_io (reading (createUrl ''clients/all.json'')) (\<lambda>url.
     bind_io (reading (createHeaders (Some False))) (\<lambda>hdrs.
     bind_io (fetch E \<lparr>req_url = url, req_method = GET, req_headers = hdrs, req_body = None\<rparr>) (\<lambda>response.
       if \<not> res_ok response
       then throw (Error (''Failed to fetch all clients: '' @ status_text response))
       else parse_body E Clients response)))"

definition getClient :: "env \<Rightarrow> jsnumber \<Rightarrow> jsval io" where
  "getClient E ident =
     bind_io (reading (createUrl (''clients/'' @ Number_toString ident @ ''.json''))) (\<lambda>url.
     bind_io (reading (createHeaders (Some False))) (\<lambda>hdrs.
     bind_io (fetch E \<lparr>req_url = url, req_method = GET, req_headers = hdrs, req_body = None\<rparr>) (\<lambda>response.
       if \<not> res_ok response
       then throw (Error (''Failed to fetch client with ID '' @ Number_toString ident @ '': '' @ status_text response))
       else parse_body E ClientWithProjects response)))"

definition createClient :: "env \<Rightarrow> jsobj \<Rightarrow> jsval io" where
  "createClient E params =
     bind_io (reading (createUrl ''clients.json'')) (\<lambda>url.
     bind_io (reading (createHeaders None)) (\<lambda>hdrs.
     bind_io (fetch E \<lparr>req_url = url, req_method = POST, req_headers = hdrs, req_body = JSON_stringify (JObj params)\<rparr>) (\<lambda>response.
       if res_status response = 403
       then throw (Error ''Forbidden: Only administrators can create clients'')
       else if \<not> res_ok response
       then throw (Error (''Failed to create client: '' @ status_text response))
       else parse_body E Client response)))"

definition updateClient :: "env \<Rightarrow> jsnumber \<Rightarrow> jsobj \<Rightarrow> jsval io" where
  "updateClient E ident params =
     bind_io (reading (createUrl (''clients/'' @ Number_toString ident @ ''.json''))) (\<lambda>url.
     bind_io (reading (createHeaders None)) (\<lambda>hdrs.
     bind_io (fetch E \<lparr>req_url = url, req_method = PUT, req_headers = hdrs, req_body = JSON_stringify (JObj params)\<rparr>) (\<lambda>response.
       if res_status response = 403
       then throw (Error ''Forbidden: Only administrators can update clients'')
       else if \<not> res_ok response
       then throw (Error (''Failed to update client with ID '' @ Number_toString ident @ '': '' @ status_text response))
       else parse_body E Client response)))"

definition deleteClient :: "env \<Rightarrow> jsnumber \<Rightarrow> jsval io" where
  "deleteClient E ident =
     bind_io (reading (createUrl (''clients/'' @ Number_toString ident @ ''.json''))) (\<lambda>url.
     bind_io (reading (createHeaders (Some False))) (\<lambda>hdrs.
     bind_io (fetch E \<lparr>req_url = url, req_method = DELETE, req_headers = hdrs, req_body = None\<rparr>) (\<lambda>response.
       if res_status response = 403
       then throw (Error ''Forbidden: Only administrators can delete clients'')
       else if res_status response = 406
       then throw (Error ''Client cannot be deleted because it still has associated projects'')
       else if \<not> res_ok response
       then throw (Error (''Failed to delete client with ID '' @ Number_toString ident @ '': '' @ status_text response))
       else settle (Inr JUndefined))))"

subsection \<open>Projects (\<open>api/projects.ts\<close>)\<close>

text \<open>\<open>params\<close> defaults to the empty object when the caller passes none.\<close>

definition getProjects :: "env \<Rightarrow> jsobj option \<Rightarrow> jsval io" where
  "getProjects E arg =
     (let params = (case arg of None \<Rightarrow> [] | Some p \<Rightarrow> p);
          queryParams = [];
          queryParams = (if truthy (get_prop params ''page'')
                         then queryParams @ [(''page'', js_String (get_prop params ''page''))]
                         else queryParams);
          queryString = URLSearchParams_toString queryParams
      in
     bind_io (reading (createUrl (if queryString \<noteq> [] then ''projects.json?'' @ queryString else ''projects.json''))) (\<lambda>url.
     bind_io (reading (createHeaders (Some False))) (\<lambda>hdrs.
     bind_io (fetch E \<lparr>req_url = url, req_method = GET, req_headers = hdrs, req_body = None\<rparr>) (\<lambda>response.
       if \<not> res_ok response
       then throw (Error (''Failed to fetch projects: '' @ status_text response))
       else parse_body E Projects response))))"

definition getClosedProjects :: "env \<Rightarrow> jsobj option \<Rightarrow> jsval io" where
  "getClosedProjects E arg =
     (let params = (case arg of None \<Rightarrow> [] | Some p \<Rightarrow> p);
          queryParams = [];
          queryParams = (if truthy (get_prop params ''page'')
                         then queryParams @ [(''page'', js_String (get_prop params ''page''))]
                         else queryParams);
          queryString = URLSearchParams_toString queryParams
      in
     bind_io (reading (createUrl (if queryString \<noteq> [] then ''projects/closed.json?'' @ queryString else ''projects/closed.json''))) (\<lambda>url.
     bind_io (reading (createHeaders (Some False))) (\<lambda>hdrs.
     bind_io (fetch E \<lparr>req_url = url, req_method = GET, req_headers = hdrs, req_body = None\<rparr>) (\<lambda>response.
       if \<not> res_ok response
       then throw (Error (''Failed to fetch closed projects: '' @ status_text response))
       else parse_body E Projects response))))"

definition getProject :: "env \<Rightarrow> jsnumber \<Rightarrow> jsval io" where
  "getProject E ident =
     bind_io (reading (createUrl (''projects/'' @ Number_toString ident @ ''.json''))) (\<lambda>url.
     bind_io (reading (createHeaders (Some False))) (\<lambda>hdrs.
     bind_io (fetch E \<lparr>req_url = url, req_method = GET, req_headers = hdrs, req_body = None\<rparr>) (\<lambda>response.
       if \<not> res_ok response
       then throw (Error (''Failed to fetch project with ID '' @ Number_toString ident @ '': '' @ status_text response))
       else parse_body E ProjectWithDetails response)))"

definition createProject :: "env \<Rightarrow> jsobj \<Rightarrow> jsval io" where
  "createProject E params =
     bind_io (reading (createUrl ''projects.json'')) (\<lambda>url.
     bind_io (reading (createHeaders None)) (\<lambda>hdrs.
     bind_io (fetch E \<lparr>req_url = url, req_method = POST, req_headers = hdrs, req_body = JSON_stringify (JObj [(''project'', JObj params)])\<rparr>) (\<lambda>response.
       if res_status response = 403
       then throw (Error ''Forbidden: Only administrators can create projects'')
       else if \<not> res_ok response
       then throw (Error (''Failed to create project: '' @ status_text response))
       else parse_body E Project response)))"

definition updateProject :: "env \<Rightarrow> jsnumber \<Rightarrow> jsobj \<Rightarrow> jsval io" where
  "updateProject E ident params =
     bind_io (reading (createUrl (''projects/'' @ Number_toString ident @ ''.json''))) (\<lambda>url.
     bind_io (reading (createHeaders None)) (\<lambda>hdrs.
     bind_io (fetch E \<lparr>req_url = url, req_method = PUT, req_headers = hdrs, req_body = JSON_stringify (JObj [(''project'', JObj params)])\<rparr>) (\<lambda>response.
       if res_status response = 403
       then throw (Error ''Forbidden: Only administrators can update projects'')
       else if \<not> res_ok response
       then throw (Error (''Failed to update project with ID '' @ Number_toString ident @ '': '' @ status_text response))
       else parse_body E Project response)))"

definition deleteProject :: "env \<Rightarrow> jsnumber \<Rightarrow> jsval io" where
  "deleteProject E ident =
     bind_io (reading (createUrl (''projects/'' @ Number_toString ident @ ''.json''))) (\<lambda>url.
     bind_io (reading (createHeaders (Some False))) (\<lambda>hdrs.
     bind_io (fetch E \<lparr>req_url = url, req_method = DELETE, req_headers = hdrs, req_body = None\<rparr>) (\<lambda>response.
       if res_status response = 403
       then throw (Error ''Forbidden: Only administrators can delete projects'')
       else if \<not> res_ok response
       then throw (Error (''Failed to delete project with ID '' @ Number_toString ident @ '': '' @ status_text response))
       else settle (Inr JUndefined))))"

subsection \<open>Tasks (\<open>api/tasks.ts\<close>)\<close>

definition getProjectTasks :: "env \<Rightarrow> jsnumber \<Rightarrow> jsval io" where
  "getProjectTasks E projectId =
     bind_io (reading (createUrl (''projects/'' @ Number_toString projectId @ ''/tasks.json''))) (\<lambda>url.
     bind_io (reading (createHeaders (Some False))) (\<lambda>hdrs.
     bind_io (fetch E \<lparr>req_url = url, req_method = GET, req_headers = hdrs, req_body = None\<rparr>) (\<lambda>response.
       if \<not> res_ok response
       then throw (Error (''Failed to fetch tasks for project '' @ Number_toString projectId @ '': '' @ status_text response))
       else parse_body E Tasks response)))"

definition getTasks :: "env \<Rightarrow> jsval io" where
  "getTasks E =
     bind_io (reading (createUrl ''tasks.json'')) (\<lambda>url.
     bind_io (reading (createHeaders (Some False))) (\<lambda>hdrs.
     bind_io (fetch E \<lparr>req_url = url, req_method = GET, req_headers = hdrs, req_body = None\<rparr>) (\<lambda>response.
       if \<not> res_ok response
       then throw (Error (''Failed to fetch tasks: '' @ status_text response))
       else parse_body E Tasks response)))"

definition getProjectClosedTasks :: "env \<Rightarrow> jsnumber \<Rightarrow> jsval io" where
  "getProjectClosedTasks E projectId =
     bind_io (reading (createUrl (''projects/'' @ Number_toString projectId @ ''/tasks/closed.json''))) (\<lambda>url.
     bind_io (reading (createHeaders (Some False))) (\<lambda>hdrs.
     bind_io (fetch E \<lparr>req_url = url, req_method = GET, req_headers = hdrs, req_body = None\<rparr>) (\<lambda>response.
       if \<not> res_ok response
       then throw (Error (''Failed to fetch closed tasks for project '' @ Number_toString projectId @ '': '' @ status_text response))
       else parse_body E Tasks response)))"

definition getClosedTasks :: "env \<Rightarrow> jsval io" where
  "getClosedTasks E =
     bind_io (reading (createUrl ''tasks/closed.json'')) (\<lambda>url.
     bind_io (reading (createHeaders (Some False))) (\<lambda>hdrs.
     bind_io (fetch E \<lparr>req_url = url, req_method = GET, req_headers = hdrs, req_body = None\<rparr>) (\<lambda>response.
       if \<not> res_ok response
       then throw (Error (''Failed to fetch closed tasks: '' @ status_text response))
       else parse_body E Tasks response)))"

definition getTask :: "env \<Rightarrow> string \<Rightarrow> jsval io" where
  "getTask E ident =
     bind_io (reading (createUrl (''tasks/'' @ ident @ ''.json''))) (\<lambda>url.
     bind_io (reading (createHeaders (Some False))) (\<lambda>hdrs.
     bind_io (fetch E \<lparr>req_url = url, req_method = GET, req_headers = hdrs, req_body = None\<rparr>) (\<lambda>response.
       if \<not> res_ok response
       then throw (Error (''Failed to fetch task with ID '' @ ident @ '': '' @ status_text response))
       else parse_body E TaskWithDetails response)))"

definition createTask :: "env \<Rightarrow> jsobj \<Rightarrow> jsval io" where
  "createTask E params =
     bind_io (reading (createUrl ''tasks.json'')) (\<lambda>url.
     bind_io (reading (createHeaders None)) (\<lambda>hdrs.
     bind_io (fetch E \<lparr>req_url = url, req_method = POST, req_headers = hdrs, req_body = JSON_stringify (JObj params)\<rparr>) (\<lambda>response.
       if \<not> res_ok response
       then (if res_status response = 403
             then throw (Error ''Failed to create task: Only administrators can create tasks'')
             else throw (Error (''Failed to create task: '' @ status_text response)))
       else parse_body E Task response)))"

definition updateTask :: "env \<Rightarrow> string \<Rightarrow> jsobj \<Rightarrow> jsval io" where
  "updateTask E ident params =
     bind_io (reading (createUrl (''tasks/'' @ ident @ ''.json''))) (\<lambda>url.
     bind_io (reading (createHeaders None)) (\<lambda>hdrs.
     bind_io (fetch E \<lparr>req_url = url, req_method = PUT, req_headers = hdrs, req_body = JSON_stringify (JObj params)\<rparr>) (\<lambda>response.
       if \<not> res_ok response
       then (if res_status response = 403
             then throw (Error ''Failed to update task: Only administrators can update tasks'')
             else throw (Error (''Failed to update task with ID '' @ ident @ '': '' @ status_text response)))
       else parse_body E Task response)))"

definition deleteTask :: "env \<Rightarrow> string \<Rightarrow> jsval io" where
  "deleteTask E ident =
     bind_io (reading (createUrl (''tasks/'' @ ident @ ''.json''))) (\<lambda>url.
     bind_io (reading (createHeaders (Some False))) (\<lambda>hdrs.
     bind_io (fetch E \<lparr>req_url = url, req_method = DELETE, req_headers = hdrs, req_body = None\<rparr>) (\<lambda>response.
       if \<not> res_ok response
       then (if res_status response = 403
             then throw (Error ''Failed to delete task: Only administrators can delete tasks'')
             else if res_status response = 406
             then throw (Error ''Failed to delete task: Only tasks without any entries can be deleted'')
             else throw (Error (''Failed to delete task with ID '' @ ident @ '': '' @ status_text response)))
       else settle (Inr JUndefined))))"

subsection \<open>Entries (\<open>api/entries.ts\<close>)\<close>

text \<open>
  The loop over \<open>Object.entries(params)\<close> that appends every property whose value is
  not \<open>undefined\<close> to the query parameters.
\<close>

fun append_defined :: "jsobj \<Rightarrow> (string \<times> string) list \<Rightarrow> (string \<times> string) list" where
  "append_defined [] queryParams = queryParams"
| "append_defined ((key, val) # rest) queryParams =
     append_defined rest
       (if val \<noteq> JUndefined then queryParams @ [(key, js_String val)] else queryParams)"

definition getEntries :: "env \<Rightarrow> jsobj \<Rightarrow> jsval io" where
  "getEntries E params =
     (if (\<not> truthy (get_prop params ''start_date'') \<or> \<not> truthy (get_prop params ''end_date''))
         \<and> \<not> truthy (get_prop params ''updated_at'')
      then throw (Error ''Either start_date and end_date OR updated_at must be provided'')
      else
     (let queryParams = append_defined params [] in
     bind_io (reading (createUrl (''entries.json?'' @ URLSearchParams_toString queryParams))) (\<lambda>url.
     bind_io (reading (createHeaders (Some False))) (\<lambda>hdrs.
     bind_io (fetch E \<lparr>req_url = url, req_method = GET, req_headers = hdrs, req_body = None\<rparr>) (\<lambda>response.
       if \<not> res_ok response
       then throw (Error (''Failed to fetch entries: '' @ status_text response))
       else parse_body E Entries response)))))"

definition getUserEntries :: "env \<Rightarrow> jsnumber \<Rightarrow> jsobj \<Rightarrow> jsval io" where
  "getUserEntries E userId params =
     (if (\<not> truthy (get_prop params ''start_date'') \<or> \<not> truthy (get_prop params ''end_date''))
         \<and> \<not> truthy (get_prop params ''updated_at'')
      then throw (Error ''Either start_date and end_date OR updated_at must be provided'')
      else
     (let queryParams = append_defined params [] in
     bind_io (reading (createUrl (''users/'' @ Number_toString userId @ ''/entries.json?'' @ URLSearchParams_toString queryParams))) (\<lambda>url.
     bind_io (reading (createHeaders (Some False))) (\<lambda>hdrs.
     bind_io (fetch E \<lparr>req_url = url, req_method = GET, req_headers = hdrs, req_body = None\<rparr>) (\<lambda>response.
       if \<not> res_ok response
       then throw (Error (''Failed to fetch entries for user '' @ Number_toString userId @ '': '' @ status_text response))
       else parse_body E Entries response)))))"

definition getProjectEntries :: "env \<Rightarrow> jsnumber \<Rightarrow> jsobj \<Rightarrow> jsval io" where
  "getProjectEntries E projectId params =
     (if (\<not> truthy (get_prop params ''start_date'') \<or> \<not> truthy (get_prop params ''end_date''))
         \<and> \<not> truthy (get_prop params ''updated_at'')
      then throw (Error ''Either start_date and end_date OR updated_at must be provided'')
      else
     (let queryParams = append_defined params [] in
     bind_io (reading (createUrl (''projects/'' @ Number_toString projectId @ ''/entries.json?'' @ URLSearchParams_toString queryParams))) (\<lambda>url.
     bind_io (reading (createHeaders (Some False))) (\<lambda>hdrs.
     bind_io (fetch E \<lparr>req_url = url, req_method = GET, req_headers = hdrs, req_body = None\<rparr>) (\<lambda>response.
       if \<not> res_ok response
       then throw (Error (''Failed to fetch entries for project '' @ Number_toString projectId @ '': '' @ status_text response))
       else parse_body E Entries response)))))"

definition getTaskEntries :: "env \<Rightarrow> jsnumber \<Rightarrow> jsobj \<Rightarrow> jsval io" where
  "getTaskEntries E taskId params =
     (if (\<not> truthy (get_prop params ''start_date'') \<or> \<not> truthy (get_prop params ''end_date''))
         \<and> \<not> truthy (get_prop params ''updated_at'')
      then throw (Error ''Either start_date and end_date OR updated_at must be provided'')
      else
     (let queryParams = append_defined params [] in
     bind_io (reading (createUrl (''tasks/'' @ Number_toString taskId @ ''/entries.json?'' @ URLSearchParams_toString queryParams))) (\<lambda>url.
     bind_io (reading (createHeaders (Some False))) (\<lambda>hdrs.
     bind_io (fetch E \<lparr>req_url = url, req_method = GET, req_headers = hdrs, req_body = None\<rparr>) (\<lambda>response.
       if \<not> res_ok response
       then throw (Error (''Failed to fetch entries for task '' @ Number_toString taskId @ '': '' @ status_text response))
       else parse_body E Entries response)))))"

definition getEntry :: "env \<Rightarrow> string \<Rightarrow> jsval io" where
  "getEntry E ident =
     bind_io (reading (createUrl (''entries/'' @ ident @ ''.json''))) (\<lambda>url.
     bind_io (reading (createHeaders (Some False))) (\<lambda>hdrs.
     bind_io (fetch E \<lparr>req_url = url, req_method = GET, req_headers = hdrs, req_body = None\<rparr>) (\<lambda>response.
       if \<not> res_ok response
       then throw (Error (''Failed to fetch entry with ID '' @ ident @ '': '' @ status_text response))
       else parse_body E EntryWithTask response)))"

definition createEntry :: "env \<Rightarrow> jsobj \<Rightarrow> jsval io" where
  "createEntry E params =
     bind_io (reading (createUrl ''entries.json'')) (\<lambda>url.
     bind_io (reading (createHeaders None)) (\<lambda>hdrs.
     bind_io (fetch E \<lparr>req_url = url, req_method = POST, req_headers = hdrs, req_body = JSON_stringify (JObj params)\<rparr>) (\<lambda>response.
       if \<not> res_ok response
       then throw (Error (''Failed to create entry: '' @ status_text response))
       else parse_body E Entry response)))"

definition updateEntry :: "env \<Rightarrow> string \<Rightarrow> jsobj \<Rightarrow> jsval io" where
  "updateEntry E ident params =
     bind_io (reading (createUrl (''entries/'' @ ident @ ''.json''))) (\<lambda>url.
     bind_io (reading (createHeaders None)) (\<lambda>hdrs.
     bind_io (fetch E \<lparr>req_url = url, req_method = PUT, req_headers = hdrs, req_body = JSON_stringify (JObj params)\<rparr>) (\<lambda>response.
       if \<not> res_ok response
       then throw (Error (''Failed to update entry with ID '' @ ident @ '': '' @ status_text response))
       else parse_body E Entry response)))"

definition deleteEntry :: "env \<Rightarrow> string \<Rightarrow> jsval io" where
  "deleteEntry E ident =
     bind_io (reading (createUrl (''entries/'' @ ident @ ''.json''))) (\<lambda>url.
     bind_io (reading (createHeaders (Some False))) (\<lambda>hdrs.
     bind_io (fetch E \<lparr>req_url = url, req_method = DELETE, req_headers = hdrs, req_body = None\<rparr>) (\<lambda>response.
       if \<not> res_ok response
       then throw (Error (''Failed to delete entry with ID '' @ ident @ '': '' @ status_text response))
       else settle (Inr JUndefined))))"

section \<open>The client: methods (\<open>client.ts\<close>)\<close>

text \<open>
  \<open>withConfig\<close> is \<open>try { return await fn() } finally { setGlobalConfig(originalConfig) }\<close>
  after saving the active configuration and installing the instance's own. Calls are
  taken one at a time: the model has no interleaving of two calls in flight.
\<close>

definition withConfig :: "TickClient \<Rightarrow> 'a io \<Rightarrow> 'a io" where
  "withConfig this fn w =
     (let originalConfig = getGlobalConfig w;
          w1 = setGlobalConfig (Some (this_config this)) w
      in case fn w1 of (r, w2) \<Rightarrow> (r, setGlobalConfig originalConfig w2))"

text \<open>A call of one of the thirty-one operations, with its arguments.\<close>

datatype method_call =
    GetUsers | GetDeletedUsers | CreateUser jsobj
  | GetClients | GetAllClients | GetClient jsnumber | CreateClient jsobj
  | UpdateClient jsnumber jsobj | DeleteClient jsnumber
  | GetProjects "jsobj option" | GetClosedProjects "jsobj option" | GetProject jsnumber
  | CreateProject jsobj | UpdateProject jsnumber jsobj | DeleteProject jsnumber
  | GetTasks | GetProjectTasks jsnumber | GetClosedTasks | GetProjectClosedTasks jsnumber
  | GetTask string | CreateTask jsobj | UpdateTask string jsobj | DeleteTask string
  | GetEntries jsobj | GetUserEntries jsnumber jsobj | GetProjectEntries jsnumber jsobj
  | GetTaskEntries jsnumber jsobj | GetEntry string | CreateEntry jsobj
  | UpdateEntry string jsobj | DeleteEntry string

fun endpoint :: "env \<Rightarrow> method_call \<Rightarrow> jsval io" where
  "endpoint E GetUsers = getUsers E"
| "endpoint E GetDeletedUsers = getDeletedUsers E"
| "endpoint E (CreateUser params) = createUser E params"
| "endpoint E GetClients = getClients E"
| "endpoint E GetAllClients = getAllClients E"
| "endpoint E (GetClient ident) = getClient E ident"
| "endpoint E (CreateClient params) = createClient E params"
| "endpoint E (UpdateClient ident params) = updateClient E ident params"
| "endpoint E (DeleteClient ident) = deleteClient E ident"
| "endpoint E (GetProjects params) = getProjects E params"
| "endpoint E (GetClosedProjects params) = getClosedProjects E params"
| "endpoint E (GetProject ident) = getProject E ident"
| "endpoint E (CreateProject params) = createProject E params"
| "endpoint E (UpdateProject ident params) = updateProject E ident params"
| "endpoint E (DeleteProject ident) = deleteProject E ident"
| "endpoint E GetTasks = getTasks E"
| "endpoint E (GetProjectTasks projectId) = getProjectTasks E projectId"
| "endpoint E GetClosedTasks = getClosedTasks E"
| "endpoint E (GetProjectClosedTasks projectId) = getProjectClosedTasks E projectId"
| "endpoint E (GetTask ident) = getTask E ident"
| "endpoint E (CreateTask params) = createTask E params"
| "endpoint E (UpdateTask ident params) = updateTask E ident params"
| "endpoint E (DeleteTask ident) = deleteTask E ident"
| "endpoint E (GetEntries params) = getEntries E params"
| "endpoint E (GetUserEntries userId params) = getUserEntries E userId params"
| "endpoint E (GetProjectEntries projectId params) = getProjectEntries E projectId params"
| "endpoint E (GetTaskEntries taskId params) = getTaskEntries E taskId params"
| "endpoint E (GetEntry ident) = getEntry E ident"
| "endpoint E (CreateEntry params) = createEntry E params"
| "endpoint E (UpdateEntry ident params) = updateEntry E ident params"
| "endpoint E (DeleteEntry ident) = deleteEntry E ident"

text \<open>
  Every method of the class is \<open>this.withConfig(() => module.operation(arguments))\<close> for
  the module function of the same name.
\<close>

definition TickClient_method :: "env \<Rightarrow> TickClient \<Rightarrow> method_call \<Rightarrow> jsval io" where
  "TickClient_method E this c = withConfig this (endpoint E c)"

section \<open>What the specification says, and example states\<close>

text \<open>
  The construction rule in the specification's words: a field is acceptable when it is
  present, of string type, and non-empty after trimming whitespace; the violated fields
  are reported together, in the order subscriptionId, apiToken, userAgent. The
  properties of the input are those of the object it is; a value that is not an object
  has none.
\<close>

definition spec_properties :: "argument \<Rightarrow> world \<Rightarrow> jsobj" where
  "spec_properties config w =
     (case config of
        Reference a \<Rightarrow> heap w a
      | Value (JObj ps) \<Rightarrow> ps
      | Value v \<Rightarrow> [])"

definition spec_field_ok :: "jsobj \<Rightarrow> string \<Rightarrow> bool" where
  "spec_field_ok config field =
     (case map_of config field of Some (JStr s) \<Rightarrow> trim s \<noteq> [] | _ \<Rightarrow> False)"

definition spec_violated_fields :: "jsobj \<Rightarrow> string list" where
  "spec_violated_fields config =
     filter (\<lambda>field. \<not> spec_field_ok config field) [''subscriptionId'', ''apiToken'', ''userAgent'']"

definition spec_configuration_error :: "string list \<Rightarrow> js_error" where
  "spec_configuration_error names =
     Error (''Invalid TickClient configuration: '' @
            join '', '' (map (\<lambda>field. field @ '' is required and must be a non-empty string'') names))"

text \<open>
  A store with two caller objects: a valid configuration carrying one extra property at
  address 0, and an invalid one at address 1. No configuration is active.
\<close>

definition acme_config :: jsobj where
  "acme_config =
     [(''subscriptionId'', JStr ''acme''), (''apiToken'', JStr ''tok''),
      (''userAgent'', JStr ''App/1.0''), (''debug'', JBool True)]"

definition blank_config :: jsobj where
  "blank_config = [(''subscriptionId'', JStr ''  ''), (''apiToken'', JNum (Number ''123''))]"

definition acme_world :: world where
  "acme_world =
     \<lparr>globalConfig = None,
      heap = (\<lambda>a. if a = 0 then acme_config else if a = 1 then blank_config else []),
      next_addr = 2,
      calls = []\<rparr>"

text \<open>A transport that answers every request with the given status, and a schema
  library that accepts every body.\<close>

definition answering :: "nat \<Rightarrow> string \<Rightarrow> env" where
  "answering code msg =
     \<lparr>transport = (\<lambda>q. Inr \<lparr>res_status = code, res_statusText = msg, res_json = Inr JNull\<rparr>),
      zod_parse = (\<lambda>sch v. Inr v)\<rparr>"

text \<open>The client built from the object at address 0, and the state after building it.\<close>

definition acme_client :: TickClient where
  "acme_client = \<lparr>this_config = 2\<rparr>"

definition acme_ready :: world where
  "acme_ready = snd (TickClient_constructor (Reference 0) acme_world)"

text \<open>The requests that a call hands to the transport.\<close>

definition issued :: "env \<Rightarrow> method_call \<Rightarrow> world \<Rightarrow> request list" where
  "issued E c w = drop (length (calls w)) (calls (snd (endpoint E c w)))"

text \<open>
  The URL and the header list in the specification's words, for the configuration
  object at address \<open>a\<close>: fixed origin, subscription id, fixed version segment, path; an
  Authorization header, a User-Agent header, and the JSON content type when asked for.
\<close>

definition api_url :: "world \<Rightarrow> addr \<Rightarrow> string \<Rightarrow> string" where
  "api_url w a path =
     ''https://www.tickspot.com/'' @ js_String (get_prop (heap w a) ''subscriptionId'') @
     ''/api/v2/'' @ path"

definition header_list :: "world \<Rightarrow> addr \<Rightarrow> bool \<Rightarrow> (string \<times> string) list" where
  "header_list w a content_type =
     [(''Authorization'', ''Token token='' @ js_String (get_prop (heap w a) ''apiToken'')),
      (''User-Agent'', js_String (get_prop (heap w a) ''userAgent''))] @
     (if content_type then [(''Content-Type'', ''application/json; charset=utf-8'')] else [])"

text \<open>
  The verb of each operation, as the wire contract has it: POST for the five create
  operations, PUT for the four update operations, DELETE for the four delete
  operations, GET for the eighteen that read.
\<close>

fun spec_verb :: "method_call \<Rightarrow> http_method" where
  "spec_verb (CreateUser params) = POST"
| "spec_verb (CreateClient params) = POST"
| "spec_verb (CreateProject params) = POST"
| "spec_verb (CreateTask params) = POST"
| "spec_verb (CreateEntry params) = POST"
| "spec_verb (UpdateClient ident params) = PUT"
| "spec_verb (UpdateProject ident params) = PUT"
| "spec_verb (UpdateTask ident params) = PUT"
| "spec_verb (UpdateEntry ident params) = PUT"
| "spec_verb (DeleteClient ident) = DELETE"
| "spec_verb (DeleteProject ident) = DELETE"
| "spec_verb (DeleteTask ident) = DELETE"
| "spec_verb (DeleteEntry ident) = DELETE"
| "spec_verb c = GET"

text \<open>The parameter object of a call of one of the four entries-listing operations.\<close>

fun entries_params :: "method_call \<Rightarrow> jsobj option" where
  "entries_params (GetEntries params) = Some params"
| "entries_params (GetUserEntries userId params) = Some params"
| "entries_params (GetProjectEntries projectId params) = Some params"
| "entries_params (GetTaskEntries taskId params) = Some params"
| "entries_params c = None"

text \<open>
  The cross-field rule read with "supplied" meaning that the property is defined, and
  read with "supplied" meaning that its value is truthy, which for a string is non-empty.
\<close>

definition spec_supplied :: "jsobj \<Rightarrow> string \<Rightarrow> bool" where
  "spec_supplied params key = (get_prop params key \<noteq> JUndefined)"

definition spec_entries_rule :: "jsobj \<Rightarrow> bool" where
  "spec_entries_rule params =
     ((spec_supplied params ''start_date'' \<and> spec_supplied params ''end_date'') \<or>
      spec_supplied params ''updated_at'')"

definition entries_rule :: "jsobj \<Rightarrow> bool" where
  "entries_rule params =
     ((truthy (get_prop params ''start_date'') \<and> truthy (get_prop params ''end_date'')) \<or>
      truthy (get_prop params ''updated_at''))"

text \<open>
  A call passes its precondition when it is not an entries listing, or is one whose
  parameters satisfy the rule as the code tests it.
\<close>

definition passes_precondition :: "method_call \<Rightarrow> bool" where
  "passes_precondition c =
     (case entries_params c of None \<Rightarrow> True | Some params \<Rightarrow> entries_rule params)"

text \<open>
  The messages of the status mapping, operation by operation: the message for status
  403 where the operation has one, the message for status 406 where it has one, and the
  opening of the generic failure message, which is followed by the status code and the
  status text.
\<close>

fun forbidden_message :: "method_call \<Rightarrow> string option" where
  "forbidden_message GetDeletedUsers = Some ''Forbidden: Only administrators can access deleted users''"
| "forbidden_message (CreateUser params) = Some ''Forbidden: Only administrators can create users''"
| "forbidden_message (CreateClient params) = Some ''Forbidden: Only administrators can create clients''"
| "forbidden_message (UpdateClient ident params) = Some ''Forbidden: Only administrators can update clients''"
| "forbidden_message (DeleteClient ident) = Some ''Forbidden: Only administrators can delete clients''"
| "forbidden_message (CreateProject params) = Some ''Forbidden: Only administrators can create projects''"
| "forbidden_message (UpdateProject ident params) = Some ''Forbidden: Only administrators can update projects''"
| "forbidden_message (DeleteProject ident) = Some ''Forbidden: Only administrators can delete projects''"
| "forbidden_message (CreateTask params) = Some ''Failed to create task: Only administrators can create tasks''"
| "forbidden_message (UpdateTask ident params) = Some ''Failed to update task: Only administrators can update tasks''"
| "forbidden_message (DeleteTask ident) = Some ''Failed to delete task: Only administrators can delete tasks''"
| "forbidden_message c = None"

fun conflict_message :: "method_call \<Rightarrow> string option" where
  "conflict_message (DeleteClient ident) =
     Some ''Client cannot be deleted because it still has associated projects''"
| "conflict_message (DeleteTask ident) =
     Some ''Failed to delete task: Only tasks without any entries can be deleted''"
| "conflict_message c = None"

fun failure_prefix :: "method_call \<Rightarrow> string" where
  "failure_prefix GetUsers = ''Failed to fetch users''"
| "failure_prefix GetDeletedUsers = ''Failed to fetch deleted users''"
| "failure_prefix (CreateUser params) = ''Failed to create user''"
| "failure_prefix GetClients = ''Failed to fetch clients''"
| "failure_prefix GetAllClients = ''Failed to fetch all clients''"
| "failure_prefix (GetClient ident) = ''Failed to fetch client with ID '' @ Number_toString ident"
| "failure_prefix (CreateClient params) = ''Failed to create client''"
| "failure_prefix (UpdateClient ident params) = ''Failed to update client with ID '' @ Number_toString ident"
| "failure_prefix (DeleteClient ident) = ''Failed to delete client with ID '' @ Number_toString ident"
| "failure_prefix (GetProjects params) = ''Failed to fetch projects''"
| "failure_prefix (GetClosedProjects params) = ''Failed to fetch closed projects''"
| "failure_prefix (GetProject ident) = ''Failed to fetch project with ID '' @ Number_toString ident"
| "failure_prefix (CreateProject params) = ''Failed to create project''"
| "failure_prefix (UpdateProject ident params) = ''Failed to update project with ID '' @ Number_toString ident"
| "failure_prefix (DeleteProject ident) = ''Failed to delete project with ID '' @ Number_toString ident"
| "failure_prefix GetTasks = ''Failed to fetch tasks''"
| "failure_prefix (GetProjectTasks projectId) = ''Failed to fetch tasks for project '' @ Number_toString projectId"
| "failure_prefix GetClosedTasks = ''Failed to fetch closed tasks''"
| "failure_prefix (GetProjectClosedTasks projectId) =
     ''Failed to fetch closed tasks for project '' @ Number_toString projectId"
| "failure_prefix (GetTask ident) = ''Failed to fetch task with ID '' @ ident"
| "failure_prefix (CreateTask params) = ''Failed to create task''"
| "failure_prefix (UpdateTask ident params) = ''Failed to update task with ID '' @ ident"
| "failure_prefix (DeleteTask ident) = ''Failed to delete task with ID '' @ ident"
| "failure_prefix (GetEntries params) = ''Failed to fetch entries''"
| "failure_prefix (GetUserEntries userId params) = ''Failed to fetch entries for user '' @ Number_toString userId"
| "failure_prefix (GetProjectEntries projectId params) =
     ''Failed to fetch entries for project '' @ Number_toString projectId"
| "failure_prefix (GetTaskEntries taskId params) = ''Failed to fetch entries for task '' @ Number_toString taskId"
| "failure_prefix (GetEntry ident) = ''Failed to fetch entry with ID '' @ ident"
| "failure_prefix (CreateEntry params) = ''Failed to create entry''"
| "failure_prefix (UpdateEntry ident params) = ''Failed to update entry with ID '' @ ident"
| "failure_prefix (DeleteEntry ident) = ''Failed to delete entry with ID '' @ ident"

definition failure_message :: "method_call \<Rightarrow> response \<Rightarrow> string" where
  "failure_message c r =
     (case (if res_status r = 403 then forbidden_message c
            else if res_status r = 406 then conflict_message c
            else None) of
        Some m \<Rightarrow> m
      | None \<Rightarrow> failure_prefix c @ '': '' @ status_text r)"

text \<open>
  The query parameters in the specification's words: every property of the filter
  object whose value is not \<open>undefined\<close>, with its value as a string, and no other.
\<close>

definition spec_query :: "jsobj \<Rightarrow> (string \<times> string) list" where
  "spec_query params =
     map (\<lambda>(key, val). (key, js_String val)) (filter (\<lambda>(key, val). val \<noteq> JUndefined) params)"

text \<open>
  What the two project listings append to their path: \<open>?page=\<close> and the page when the
  page is truthy, nothing otherwise.
\<close>

definition page_query :: "jsobj option \<Rightarrow> string" where
  "page_query arg =
     (let page = get_prop (case arg of None \<Rightarrow> [] | Some params \<Rightarrow> params) ''page''
      in if truthy page then ''?page='' @ urlencode (js_String page) else [])"

section \<open>Properties\<close>

subsection \<open>Construction\<close>

lemma trimStart_empty: "trimStart [] = []"
  by (simp add: trimStart.simps leading_whitespace_def whitespace_def)

lemma trimEnd_empty: "trimEnd [] = []"
  by (simp add: trimEnd.simps trailing_whitespace_def whitespace_def)

lemma trim_empty: "trim [] = []"
  by (simp add: trim_def trimStart_empty trimEnd_empty)

lemma invalid_field_iff:
  "invalid_field (get_prop config field) \<longleftrightarrow> \<not> spec_field_ok config field"
  by (auto simp: invalid_field_def spec_field_ok_def get_prop_def trim_empty
           split: option.splits jsval.splits)

lemma read_property_object:
  assumes "config \<noteq> Value JUndefined" and "config \<noteq> Value JNull"
  shows "read_property config key w = Inr (get_prop (spec_properties config w) key)"
  using assms
  by (auto simp: read_property_def spec_properties_def get_prop_def
           split: argument.splits jsval.splits)

lemma validateConfig_spec:
  assumes "config \<noteq> Value JUndefined" and "config \<noteq> Value JNull"
  shows "validateConfig config w =
     (if spec_violated_fields (spec_properties config w) = [] then Inr ()
      else Inl (spec_configuration_error (spec_violated_fields (spec_properties config w))))"
  by (simp add: validateConfig_def read_property_object [OF assms] invalid_field_iff
                spec_violated_fields_def spec_configuration_error_def Let_def)

lemma constructor_accepts:
  assumes "config \<noteq> Value JUndefined" and "config \<noteq> Value JNull"
    and "spec_violated_fields (spec_properties config w) = []"
  shows "TickClient_constructor config w =
           (Inr \<lparr>this_config = next_addr w\<rparr>,
            w\<lparr>heap := (heap w)(next_addr w :=
                  [(''subscriptionId'', get_prop (spec_properties config w) ''subscriptionId''),
                   (''apiToken'', get_prop (spec_properties config w) ''apiToken''),
                   (''userAgent'', get_prop (spec_properties config w) ''userAgent'')]),
               next_addr := Suc (next_addr w)\<rparr>)"
  using assms(3)
  by (simp add: TickClient_constructor_def validateConfig_spec [OF assms(1,2)]
                read_property_object [OF assms(1,2)] new_object_def)

lemma constructor_rejects:
  assumes "config \<noteq> Value JUndefined" and "config \<noteq> Value JNull"
    and "spec_violated_fields (spec_properties config w) \<noteq> []"
  shows "TickClient_constructor config w =
           (Inl (spec_configuration_error (spec_violated_fields (spec_properties config w))), w)"
  using assms(3)
  by (simp add: TickClient_constructor_def validateConfig_spec [OF assms(1,2)])

text \<open>
  C4, as the code has it. For every input other than \<open>null\<close> and \<open>undefined\<close>:
  construction succeeds exactly when each of subscriptionId, apiToken and userAgent of
  the input is present, a string, and non-empty after trimming. Otherwise it fails,
  leaving the state as it was, with one error whose message lists every violated field,
  each with the text "<field> is required and must be a non-empty string". Constructing
  a second time from the same input gives the same outcome: accepted again, or rejected
  with the same error.
\<close>

theorem constructor_validation:
  assumes "config \<noteq> Value JUndefined" and "config \<noteq> Value JNull"
  shows "(spec_violated_fields (spec_properties config w) = [] \<longrightarrow>
            fst (TickClient_constructor config w) = Inr \<lparr>this_config = next_addr w\<rparr>) \<and>
         (spec_violated_fields (spec_properties config w) \<noteq> [] \<longrightarrow>
            TickClient_constructor config w =
              (Inl (spec_configuration_error (spec_violated_fields (spec_properties config w))), w)) \<and>
         ((\<forall>a. config = Reference a \<longrightarrow> a < next_addr w) \<longrightarrow>
            map_sum id (\<lambda>this. ())
              (fst (TickClient_constructor config (snd (TickClient_constructor config w)))) =
            map_sum id (\<lambda>this. ()) (fst (TickClient_constructor config w)))"
proof (cases "spec_violated_fields (spec_properties config w) = []")
  case True
  let ?w' = "snd (TickClient_constructor config w)"
  have heap': "heap ?w' a = heap w a" if "a < next_addr w" for a
    using that by (simp add: constructor_accepts [OF assms True])
  have "spec_properties config ?w' = spec_properties config w"
    if "\<forall>a. config = Reference a \<longrightarrow> a < next_addr w"
    using that heap'
    by (cases config) (auto simp: spec_properties_def split: jsval.splits)
  then have "spec_violated_fields (spec_properties config ?w') = []"
    if "\<forall>a. config = Reference a \<longrightarrow> a < next_addr w"
    using that True by simp
  then show ?thesis
    using True by (auto simp: constructor_accepts [OF assms])
next
  case False
  then show ?thesis by (simp add: constructor_rejects [OF assms])
qed

theorem constructor_validation_witness:
  "fst (TickClient_constructor (Reference 0) acme_world) = Inr \<lparr>this_config = 2\<rparr> \<and>
   TickClient_constructor (Reference 1) acme_world =
     (Inl (Error ''Invalid TickClient configuration: subscriptionId is required and must be a non-empty string, apiToken is required and must be a non-empty string, userAgent is required and must be a non-empty string''),
      acme_world) \<and>
   map_sum id (\<lambda>this. ())
     (fst (TickClient_constructor (Reference 0)
             (snd (TickClient_constructor (Reference 0) acme_world)))) = Inr () \<and>
   fst (TickClient_constructor
          (Value (JObj [(''subscriptionId'', JStr [CHR 0x09, CHR 0xE3, CHR 0x80, CHR 0x80, CHR 0xC2, CHR 0xA0]),
                        (''apiToken'', JStr '' tok ''), (''userAgent'', JStr ''App/1.0'')]))
          acme_world) =
     Inl (Error ''Invalid TickClient configuration: subscriptionId is required and must be a non-empty string'') \<and>
   fst (TickClient_constructor (Value (JNum (Number ''5''))) acme_world) =
     Inl (Error ''Invalid TickClient configuration: subscriptionId is required and must be a non-empty string, apiToken is required and must be a non-empty string, userAgent is required and must be a non-empty string'')"
proof -
  let ?padded = "Value (JObj [(''subscriptionId'', JStr [CHR 0x09, CHR 0xE3, CHR 0x80, CHR 0x80, CHR 0xC2, CHR 0xA0]),
                        (''apiToken'', JStr '' tok ''), (''userAgent'', JStr ''App/1.0'')])"
  have ok: "spec_violated_fields (spec_properties (Reference 0) acme_world) = []"
    by code_simp
  have bad: "spec_violated_fields (spec_properties (Reference 1) acme_world) =
               [''subscriptionId'', ''apiToken'', ''userAgent'']"
    by code_simp
  have padded: "spec_violated_fields (spec_properties ?padded acme_world) = [''subscriptionId'']"
    by code_simp
  have number: "spec_violated_fields (spec_properties (Value (JNum (Number ''5''))) acme_world) =
               [''subscriptionId'', ''apiToken'', ''userAgent'']"
    by code_simp
  have n: "next_addr acme_world = 2"
    by (simp add: acme_world_def)
  show ?thesis
    using constructor_validation [of "Reference 0" acme_world]
          constructor_validation [of "Reference 1" acme_world]
          constructor_validation [of ?padded acme_world]
          constructor_validation [of "Value (JNum (Number ''5''))" acme_world]
          ok bad padded number n
    by (simp add: spec_configuration_error_def)
qed

text \<open>
  C4 as stated fails: \<open>null\<close> has none of the three fields, yet construction does not
  fail with the error that lists them; the first read of a field raises a TypeError.
\<close>

theorem constructor_null_counterexample:
  "spec_violated_fields (spec_properties (Value JNull) acme_world) =
     [''subscriptionId'', ''apiToken'', ''userAgent''] \<and>
   fst (TickClient_constructor (Value JNull) acme_world) =
     Inl (TypeError (''Cannot read properties of null (reading '' @ [CHR 0x27] @ ''subscriptionId'' @
                     [CHR 0x27] @ '')'')) \<and>
   fst (TickClient_constructor (Value JNull) acme_world) \<noteq>
     Inl (spec_configuration_error [''subscriptionId'', ''apiToken'', ''userAgent''])"
  by code_simp

subsection \<open>Scoping of the active configuration\<close>

text \<open>
  C1. A call through the client runs the wrapped operation in the state whose active
  configuration is the instance's own, hands back the operation's result, success or
  failure, as it is, and leaves the active configuration at the value it had before the
  call, whatever the operation did to it; that value may be null. This holds for
  \<open>withConfig\<close> around any operation, hence for every method of the client.
\<close>

theorem withConfig_scoped:
  "fst (withConfig this fn w) = fst (fn (w\<lparr>globalConfig := Some (this_config this)\<rparr>)) \<and>
   snd (withConfig this fn w) =
     (snd (fn (w\<lparr>globalConfig := Some (this_config this)\<rparr>)))\<lparr>globalConfig := globalConfig w\<rparr> \<and>
   fst (TickClient_method E this c w) =
     fst (endpoint E c (w\<lparr>globalConfig := Some (this_config this)\<rparr>)) \<and>
   snd (TickClient_method E this c w) =
     (snd (endpoint E c (w\<lparr>globalConfig := Some (this_config this)\<rparr>)))\<lparr>globalConfig := globalConfig w\<rparr>"
  by (simp add: TickClient_method_def withConfig_def setGlobalConfig_def getGlobalConfig_def
                Let_def split: prod.splits)

theorem withConfig_scoped_witness:
  "fst (withConfig \<lparr>this_config = 0\<rparr> (throw (Error ''boom'') :: jsval io) acme_world) = Inl (Error ''boom'') \<and>
   globalConfig (snd (withConfig \<lparr>this_config = 0\<rparr> (throw (Error ''boom'') :: jsval io) acme_world)) = None \<and>
   fst (TickClient_method (answering 500 ''Server Error'') \<lparr>this_config = 0\<rparr> GetClients
          (acme_world\<lparr>globalConfig := Some 1\<rparr>)) =
     Inl (Error ''Failed to fetch clients: 500 Server Error'') \<and>
   globalConfig (snd (TickClient_method (answering 500 ''Server Error'') \<lparr>this_config = 0\<rparr> GetClients
          (acme_world\<lparr>globalConfig := Some 1\<rparr>))) = Some 1"
proof -
  have run: "fst (endpoint (answering 500 ''Server Error'') GetClients
                    (acme_world\<lparr>globalConfig := Some 0\<rparr>)) =
             Inl (Error ''Failed to fetch clients: 500 Server Error'')"
    by code_simp
  have none: "globalConfig acme_world = None"
    by (simp add: acme_world_def)
  note a = withConfig_scoped [of "\<lparr>this_config = 0\<rparr>" "throw (Error ''boom'') :: jsval io" acme_world
                                 "answering 500 ''Server Error''" GetClients]
  note b = withConfig_scoped [of "\<lparr>this_config = 0\<rparr>" "throw (Error ''boom'') :: jsval io"
                                 "acme_world\<lparr>globalConfig := Some 1\<rparr>"
                                 "answering 500 ''Server Error''" GetClients]
  have 1: "fst (withConfig \<lparr>this_config = 0\<rparr> (throw (Error ''boom'') :: jsval io) acme_world) = Inl (Error ''boom'')"
    using a by (simp add: throw_def)
  have 2: "globalConfig (snd (withConfig \<lparr>this_config = 0\<rparr> (throw (Error ''boom'') :: jsval io) acme_world)) = None"
    using a none by simp
  have 3: "fst (TickClient_method (answering 500 ''Server Error'') \<lparr>this_config = 0\<rparr> GetClients
          (acme_world\<lparr>globalConfig := Some 1\<rparr>)) =
     Inl (Error ''Failed to fetch clients: 500 Server Error'')"
    using b run by simp
  have 4: "globalConfig (snd (TickClient_method (answering 500 ''Server Error'') \<lparr>this_config = 0\<rparr> GetClients
          (acme_world\<lparr>globalConfig := Some 1\<rparr>))) = Some 1"
    using b by simp
  from 1 2 3 4 show ?thesis by simp
qed

subsection \<open>Request helpers\<close>

named_theorems op_defs

lemmas [op_defs] =
  getUsers_def getDeletedUsers_def createUser_def
  getClients_def getAllClients_def getClient_def createClient_def updateClient_def deleteClient_def
  getProjects_def getClosedProjects_def getProject_def createProject_def updateProject_def
  deleteProject_def
  getProjectTasks_def getTasks_def getProjectClosedTasks_def getClosedTasks_def getTask_def
  createTask_def updateTask_def deleteTask_def
  getEntries_def getUserEntries_def getProjectEntries_def getTaskEntries_def
  getEntry_def createEntry_def updateEntry_def deleteEntry_def

lemma createUrl_active: "globalConfig w = Some a \<Longrightarrow> createUrl path w = Inr (api_url w a path)"
  by (simp add: createUrl_def api_url_def BASE_URL_def API_VERSION_def)

lemma createHeaders_active:
  "globalConfig w = Some a \<Longrightarrow> createHeaders arg w = Inr (header_list w a (arg \<noteq> Some False))"
  by (cases arg) (auto simp: createHeaders_def header_list_def)

lemma request_inactive:
  assumes "globalConfig w = None"
  shows "bind_io (reading (createUrl path)) k w = (Inl not_set, w)"
  using assms by (simp add: bind_io_def reading_def createUrl_def)

lemma request_active:
  assumes "globalConfig w = Some a"
  shows "bind_io (reading (createUrl path)) (\<lambda>url.
         bind_io (reading (createHeaders arg)) (\<lambda>hdrs.
         bind_io (fetch E \<lparr>req_url = url, req_method = m, req_headers = hdrs, req_body = b\<rparr>) k)) w =
         (case transport E \<lparr>req_url = api_url w a path, req_method = m,
                            req_headers = header_list w a (arg \<noteq> Some False), req_body = b\<rparr> of
            Inl e \<Rightarrow>
              (Inl e, w\<lparr>calls := calls w @ [\<lparr>req_url = api_url w a path, req_method = m,
                            req_headers = header_list w a (arg \<noteq> Some False), req_body = b\<rparr>]\<rparr>)
          | Inr r \<Rightarrow>
              k r (w\<lparr>calls := calls w @ [\<lparr>req_url = api_url w a path, req_method = m,
                            req_headers = header_list w a (arg \<noteq> Some False), req_body = b\<rparr>]\<rparr>))"
  using assms
  by (simp add: bind_io_def reading_def fetch_def createUrl_active createHeaders_active
           split: sum.splits)

lemma throw_result [simp]: "snd (throw e w) = w" "fst (throw e w) = Inl e"
  by (simp_all add: throw_def)

lemma settle_result [simp]: "snd (settle x w) = w" "fst (settle x w) = x"
  by (simp_all add: settle_def)

lemma parse_body_result [simp]:
  "snd (parse_body E sch r w) = w"
  "fst (parse_body E sch r w) = (case res_json r of Inl e \<Rightarrow> Inl e | Inr d \<Rightarrow> zod_parse E sch d)"
  by (simp_all add: parse_body_def bind_io_def settle_def split: sum.splits)

lemma method_unfold:
  "TickClient_method E this c w =
     (fst (endpoint E c (w\<lparr>globalConfig := Some (this_config this)\<rparr>)),
      (snd (endpoint E c (w\<lparr>globalConfig := Some (this_config this)\<rparr>)))\<lparr>globalConfig := globalConfig w\<rparr>)"
  by (simp add: TickClient_method_def withConfig_def setGlobalConfig_def getGlobalConfig_def
                Let_def split: prod.splits)

text \<open>
  C5. With a configuration active, \<open>createUrl\<close> returns the fixed origin, the
  configuration's subscription id, the fixed segment \<open>/api/v2/\<close> and the given path,
  concatenated; with none active it fails with the error that says so instead of
  returning a URL.
\<close>

theorem createUrl_builds:
  "(globalConfig w = Some a \<longrightarrow>
      createUrl path w =
        Inr (''https://www.tickspot.com/'' @ js_String (get_prop (heap w a) ''subscriptionId'') @
             ''/api/v2/'' @ path)) \<and>
   (globalConfig w = Some a \<and> get_prop (heap w a) ''subscriptionId'' = JStr sub \<longrightarrow>
      createUrl path w = Inr (''https://www.tickspot.com/'' @ sub @ ''/api/v2/'' @ path)) \<and>
   (globalConfig w = None \<longrightarrow>
      createUrl path w =
        Inl (Error ''Global configuration is not set. Please call setGlobalConfig() first.''))"
  by (simp add: createUrl_def BASE_URL_def API_VERSION_def not_set_def)

theorem createUrl_builds_witness:
  "createUrl ''clients.json'' (acme_world\<lparr>globalConfig := Some 0\<rparr>) =
     Inr ''https://www.tickspot.com/acme/api/v2/clients.json'' \<and>
   createUrl ''clients.json'' acme_world =
     Inl (Error ''Global configuration is not set. Please call setGlobalConfig() first.'')"
proof -
  have sub: "get_prop (heap (acme_world\<lparr>globalConfig := Some 0\<rparr>) 0) ''subscriptionId'' = JStr ''acme''"
    by (simp add: acme_world_def acme_config_def get_prop_def)
  have none: "globalConfig acme_world = None"
    by (simp add: acme_world_def)
  show ?thesis
    using createUrl_builds [of "acme_world\<lparr>globalConfig := Some 0\<rparr>" 0 "''clients.json''" "''acme''"]
          createUrl_builds [of acme_world 0 "''clients.json''" "''acme''"] sub none
    by simp
qed

lemma issued_headers:
  assumes "q \<in> set (issued E c w)"
  shows "createHeaders (Some (req_method q = POST \<or> req_method q = PUT)) w = Inr (req_headers q) \<and>
         map_of (req_headers q) ''Content-Type'' =
           (if req_method q = POST \<or> req_method q = PUT
            then Some ''application/json; charset=utf-8'' else None)"
proof (cases "globalConfig w")
  case None
  with assms show ?thesis
    by (cases c) (auto simp: issued_def op_defs request_inactive Let_def split: if_splits)
next
  case (Some a)
  with assms show ?thesis
    by (cases c)
       (auto simp: issued_def op_defs request_active createHeaders_active header_list_def Let_def
             split: sum.splits if_splits)
qed

lemma endpoint_issues:
  assumes "globalConfig w = Some a" and "passes_precondition c"
  shows "map (\<lambda>q. (req_method q, req_headers q)) (issued E c w) =
           [(spec_verb c, header_list w a (spec_verb c = POST \<or> spec_verb c = PUT))]"
  using assms
  by (cases c)
     (auto simp: issued_def op_defs request_active passes_precondition_def entries_rule_def
                 Let_def
           split: sum.splits)

lemma method_issues:
  "drop (length (calls w)) (calls (snd (TickClient_method E this c w))) =
     issued E c (w\<lparr>globalConfig := Some (this_config this)\<rparr>)"
  by (simp add: method_unfold issued_def)

lemma header_list_content_type:
  "map_of (header_list w a content_type) ''Content-Type'' =
     (if content_type then Some ''application/json; charset=utf-8'' else None)"
  by (simp add: header_list_def)

text \<open>
  C6. With a configuration active, \<open>createHeaders\<close> gives an Authorization header
  "Token token=<apiToken>" and a User-Agent header with the configuration's userAgent,
  and adds the JSON Content-Type header exactly when asked to; asking for nothing means
  asking for it. With no configuration active it fails with the error that says so.
  Every operation that passes its precondition issues, under an active configuration
  and so in every call through the client, exactly one request, with the verb of the
  wire contract and with the headers of \<open>createHeaders(false)\<close>, so no Content-Type, when
  that verb is GET or DELETE, and those of \<open>createHeaders(true)\<close>, so with the
  Content-Type, when it is POST or PUT.
\<close>

theorem createHeaders_builds:
  "(globalConfig w = Some a \<and> get_prop (heap w a) ''apiToken'' = JStr token \<and>
    get_prop (heap w a) ''userAgent'' = JStr agent \<longrightarrow>
      createHeaders (Some False) w =
        Inr [(''Authorization'', ''Token token='' @ token), (''User-Agent'', agent)] \<and>
      createHeaders (Some True) w =
        Inr [(''Authorization'', ''Token token='' @ token), (''User-Agent'', agent),
             (''Content-Type'', ''application/json; charset=utf-8'')] \<and>
      createHeaders None w = createHeaders (Some True) w) \<and>
   (globalConfig w = None \<longrightarrow>
      createHeaders arg w =
        Inl (Error ''Global configuration is not set. Please call setGlobalConfig() first.'')) \<and>
   (globalConfig w = Some a \<and> passes_precondition c \<longrightarrow>
      map req_method (issued E c w) = [spec_verb c] \<and>
      map (\<lambda>q. Inr (req_headers q)) (issued E c w) =
        [createHeaders (Some (spec_verb c = POST \<or> spec_verb c = PUT)) w] \<and>
      map (\<lambda>q. map_of (req_headers q) ''Content-Type'') (issued E c w) =
        [if spec_verb c = POST \<or> spec_verb c = PUT
         then Some ''application/json; charset=utf-8'' else None]) \<and>
   (passes_precondition c \<longrightarrow>
      map req_method (drop (length (calls w)) (calls (snd (TickClient_method E this c w)))) =
        [spec_verb c] \<and>
      map (\<lambda>q. map_of (req_headers q) ''Content-Type'')
          (drop (length (calls w)) (calls (snd (TickClient_method E this c w)))) =
        [if spec_verb c = POST \<or> spec_verb c = PUT
         then Some ''application/json; charset=utf-8'' else None]) \<and>
   (\<forall>q \<in> set (issued E c w).
      createHeaders (Some (req_method q = POST \<or> req_method q = PUT)) w = Inr (req_headers q) \<and>
      map_of (req_headers q) ''Content-Type'' =
        (if req_method q = POST \<or> req_method q = PUT
         then Some ''application/json; charset=utf-8'' else None))"
proof -
  have each: "\<forall>q \<in> set (issued E c w).
      createHeaders (Some (req_method q = POST \<or> req_method q = PUT)) w = Inr (req_headers q) \<and>
      map_of (req_headers q) ''Content-Type'' =
        (if req_method q = POST \<or> req_method q = PUT
         then Some ''application/json; charset=utf-8'' else None)"
    using issued_headers by blast
  have one: "map req_method (issued E c w') = [spec_verb c] \<and>
      map (\<lambda>q. Inr (req_headers q)) (issued E c w') =
        [createHeaders (Some (spec_verb c = POST \<or> spec_verb c = PUT)) w'] \<and>
      map (\<lambda>q. map_of (req_headers q) ''Content-Type'') (issued E c w') =
        [if spec_verb c = POST \<or> spec_verb c = PUT
         then Some ''application/json; charset=utf-8'' else None]"
    if "globalConfig w' = Some a'" and "passes_precondition c" for w' a'
  proof -
    from endpoint_issues [OF that, of E]
    obtain q where q: "issued E c w' = [q]" "req_method q = spec_verb c"
      "req_headers q = header_list w' a' (spec_verb c = POST \<or> spec_verb c = PUT)"
      by (cases "issued E c w'") auto
    show ?thesis
      using q that(1)
      by (simp add: createHeaders_active header_list_content_type)
  qed
  have through: "map req_method (drop (length (calls w)) (calls (snd (TickClient_method E this c w)))) =
        [spec_verb c] \<and>
      map (\<lambda>q. map_of (req_headers q) ''Content-Type'')
          (drop (length (calls w)) (calls (snd (TickClient_method E this c w)))) =
        [if spec_verb c = POST \<or> spec_verb c = PUT
         then Some ''application/json; charset=utf-8'' else None]"
    if "passes_precondition c"
    using one [of "w\<lparr>globalConfig := Some (this_config this)\<rparr>" "this_config this"] that
    by (simp add: method_issues)
  have builder: "(globalConfig w = Some a \<and> get_prop (heap w a) ''apiToken'' = JStr token \<and>
    get_prop (heap w a) ''userAgent'' = JStr agent \<longrightarrow>
      createHeaders (Some False) w =
        Inr [(''Authorization'', ''Token token='' @ token), (''User-Agent'', agent)] \<and>
      createHeaders (Some True) w =
        Inr [(''Authorization'', ''Token token='' @ token), (''User-Agent'', agent),
             (''Content-Type'', ''application/json; charset=utf-8'')] \<and>
      createHeaders None w = createHeaders (Some True) w) \<and>
   (globalConfig w = None \<longrightarrow>
      createHeaders arg w =
        Inl (Error ''Global configuration is not set. Please call setGlobalConfig() first.''))"
    by (simp add: createHeaders_def not_set_def)
  from builder one [of w a] through each show ?thesis
    by blast
qed

theorem createHeaders_builds_witness:
  "createHeaders (Some False) (acme_world\<lparr>globalConfig := Some 0\<rparr>) =
     Inr [(''Authorization'', ''Token token=tok''), (''User-Agent'', ''App/1.0'')] \<and>
   createHeaders None (acme_world\<lparr>globalConfig := Some 0\<rparr>) =
     Inr [(''Authorization'', ''Token token=tok''), (''User-Agent'', ''App/1.0''),
          (''Content-Type'', ''application/json; charset=utf-8'')] \<and>
   createHeaders None acme_world =
     Inl (Error ''Global configuration is not set. Please call setGlobalConfig() first.'') \<and>
   issued (answering 403 ''Forbidden'') (DeleteClient (Number ''7'')) (acme_world\<lparr>globalConfig := Some 0\<rparr>) =
     [\<lparr>req_url = ''https://www.tickspot.com/acme/api/v2/clients/7.json'',
       req_method = DELETE,
       req_headers = [(''Authorization'', ''Token token=tok''), (''User-Agent'', ''App/1.0'')],
       req_body = None\<rparr>] \<and>
   map (\<lambda>q. (req_method q, req_headers q))
     (drop (length (calls acme_ready))
        (calls (snd (TickClient_method (answering 200 ''OK'') acme_client
                       (UpdateEntry ''99'' [(''hours'', JNum (Number ''1.5''))]) acme_ready)))) =
     [(PUT, [(''Authorization'', ''Token token=tok''), (''User-Agent'', ''App/1.0''),
             (''Content-Type'', ''application/json; charset=utf-8'')])] \<and>
   map (\<lambda>q. (req_method q, req_headers q))
     (drop (length (calls acme_ready))
        (calls (snd (TickClient_method (answering 200 ''OK'') acme_client GetUsers acme_ready)))) =
     [(GET, [(''Authorization'', ''Token token=tok''), (''User-Agent'', ''App/1.0'')])]"
proof -
  let ?w = "acme_world\<lparr>globalConfig := Some 0\<rparr>"
  let ?q = "\<lparr>req_url = ''https://www.tickspot.com/acme/api/v2/clients/7.json'',
              req_method = DELETE,
              req_headers = [(''Authorization'', ''Token token=tok''), (''User-Agent'', ''App/1.0'')],
              req_body = None\<rparr>"
  let ?put = "drop (length (calls acme_ready))
        (calls (snd (TickClient_method (answering 200 ''OK'') acme_client
                       (UpdateEntry ''99'' [(''hours'', JNum (Number ''1.5''))]) acme_ready)))"
  let ?get = "drop (length (calls acme_ready))
        (calls (snd (TickClient_method (answering 200 ''OK'') acme_client GetUsers acme_ready)))"
  have cfg: "globalConfig ?w = Some 0"
       "get_prop (heap ?w 0) ''apiToken'' = JStr ''tok''"
       "get_prop (heap ?w 0) ''userAgent'' = JStr ''App/1.0''"
    by (simp_all add: acme_world_def acme_config_def get_prop_def)
  have none: "globalConfig acme_world = None"
    by (simp add: acme_world_def)
  have pre: "passes_precondition (DeleteClient (Number ''7''))"
       "passes_precondition (UpdateEntry ''99'' [(''hours'', JNum (Number ''1.5''))])"
       "passes_precondition GetUsers"
    by (simp_all add: passes_precondition_def)
  have run: "issued (answering 403 ''Forbidden'') (DeleteClient (Number ''7'')) ?w = [?q]"
    by code_simp
  have hdrs: "map req_headers ?put =
                [[(''Authorization'', ''Token token=tok''), (''User-Agent'', ''App/1.0''),
                  (''Content-Type'', ''application/json; charset=utf-8'')]]"
             "map req_headers ?get =
                [[(''Authorization'', ''Token token=tok''), (''User-Agent'', ''App/1.0'')]]"
    by code_simp+
  note a = createHeaders_builds [of ?w 0 "''tok''" "''App/1.0''" None
                                    "DeleteClient (Number ''7'')" "answering 403 ''Forbidden''"
                                    acme_client]
  note b = createHeaders_builds [of acme_world 0 "''tok''" "''App/1.0''" None
                                    "DeleteClient (Number ''7'')" "answering 403 ''Forbidden''"
                                    acme_client]
  note c = createHeaders_builds [of acme_ready 0 "''tok''" "''App/1.0''" None
                                    "UpdateEntry ''99'' [(''hours'', JNum (Number ''1.5''))]"
                                    "answering 200 ''OK''" acme_client]
  note d = createHeaders_builds [of acme_ready 0 "''tok''" "''App/1.0''" None
                                    GetUsers "answering 200 ''OK''" acme_client]
  have 1: "createHeaders (Some False) ?w =
             Inr [(''Authorization'', ''Token token=tok''), (''User-Agent'', ''App/1.0'')]"
    using a cfg by simp
  have 2: "createHeaders None ?w =
             Inr [(''Authorization'', ''Token token=tok''), (''User-Agent'', ''App/1.0''),
                  (''Content-Type'', ''application/json; charset=utf-8'')]"
    using a cfg by simp
  have 3: "createHeaders None acme_world =
             Inl (Error ''Global configuration is not set. Please call setGlobalConfig() first.'')"
    using b none by simp
  have 4: "map req_method (issued (answering 403 ''Forbidden'') (DeleteClient (Number ''7'')) ?w) = [DELETE]"
    using a cfg(1) pre(1) by simp
  have 5: "map req_method ?put = [PUT]"
    using c pre(2) by simp
  have 6: "map req_method ?get = [GET]"
    using d pre(3) by simp
  have 7: "map (\<lambda>q. (req_method q, req_headers q)) ?put =
     [(PUT, [(''Authorization'', ''Token token=tok''), (''User-Agent'', ''App/1.0''),
             (''Content-Type'', ''application/json; charset=utf-8'')])]"
    using 5 hdrs(1) by (cases ?put) auto
  have 8: "map (\<lambda>q. (req_method q, req_headers q)) ?get =
     [(GET, [(''Authorization'', ''Token token=tok''), (''User-Agent'', ''App/1.0'')])]"
    using 6 hdrs(2) by (cases ?get) auto
  from 1 2 3 4 7 8 run show ?thesis by simp
qed

subsection \<open>The stored configuration\<close>

lemma endpoint_reads_config:
  assumes "globalConfig w1 = Some a" and "globalConfig w2 = Some a"
    and "heap w1 a = heap w2 a" and "calls w1 = calls w2"
  shows "fst (endpoint E c w1) = fst (endpoint E c w2) \<and>
         calls (snd (endpoint E c w1)) = calls (snd (endpoint E c w2))"
  using assms
  by (cases c)
     (auto simp: op_defs request_active api_url_def header_list_def Let_def split: sum.splits)

text \<open>
  C9. When construction succeeds, the client's configuration is a new object, at an
  address that held no object before and so different from the caller's, holding exactly
  the three properties subscriptionId, apiToken and userAgent with the caller's values;
  any other property of the input is not in it. The objects that existed before are
  untouched, and whatever the caller later writes into its own object changes neither
  the result of any method of the client nor the requests it issues.
\<close>

theorem constructor_copies:
  assumes "config < next_addr w"
    and "TickClient_constructor (Reference config) w = (Inr this, w')"
  shows "this_config this \<noteq> config \<and> \<not> this_config this < next_addr w \<and>
         heap w' (this_config this) =
           [(''subscriptionId'', get_prop (heap w config) ''subscriptionId''),
            (''apiToken'', get_prop (heap w config) ''apiToken''),
            (''userAgent'', get_prop (heap w config) ''userAgent'')] \<and>
         (\<forall>a. a < next_addr w \<longrightarrow> heap w' a = heap w a) \<and>
         (\<forall>obj E c.
            fst (TickClient_method E this c (w'\<lparr>heap := (heap w')(config := obj)\<rparr>)) =
              fst (TickClient_method E this c w') \<and>
            calls (snd (TickClient_method E this c (w'\<lparr>heap := (heap w')(config := obj)\<rparr>))) =
              calls (snd (TickClient_method E this c w')))"
proof -
  have props: "spec_properties (Reference config) w = heap w config"
    by (simp add: spec_properties_def)
  have "spec_violated_fields (spec_properties (Reference config) w) = []"
    using assms(2)
    by (cases "spec_violated_fields (spec_properties (Reference config) w) = []")
       (auto simp: constructor_rejects)
  then have "TickClient_constructor (Reference config) w =
           (Inr \<lparr>this_config = next_addr w\<rparr>,
            w\<lparr>heap := (heap w)(next_addr w :=
                  [(''subscriptionId'', get_prop (heap w config) ''subscriptionId''),
                   (''apiToken'', get_prop (heap w config) ''apiToken''),
                   (''userAgent'', get_prop (heap w config) ''userAgent'')]),
               next_addr := Suc (next_addr w)\<rparr>)"
    using constructor_accepts [of "Reference config" w] props by simp
  with assms
  have fresh_addr: "this_config this = next_addr w"
    and w': "w' = w\<lparr>heap := (heap w)(next_addr w :=
                  [(''subscriptionId'', get_prop (heap w config) ''subscriptionId''),
                   (''apiToken'', get_prop (heap w config) ''apiToken''),
                   (''userAgent'', get_prop (heap w config) ''userAgent'')]),
               next_addr := Suc (next_addr w)\<rparr>"
    by auto
  have fresh: "this_config this \<noteq> config"
    using fresh_addr assms(1) by simp
  have "fst (TickClient_method E this c (w'\<lparr>heap := (heap w')(config := obj)\<rparr>)) =
          fst (TickClient_method E this c w') \<and>
        calls (snd (TickClient_method E this c (w'\<lparr>heap := (heap w')(config := obj)\<rparr>))) =
          calls (snd (TickClient_method E this c w'))" for obj E c
    using endpoint_reads_config
            [of "w'\<lparr>heap := (heap w')(config := obj), globalConfig := Some (this_config this)\<rparr>"
                "this_config this" "w'\<lparr>globalConfig := Some (this_config this)\<rparr>" E c]
          fresh
    by (simp add: method_unfold)
  then show ?thesis
    using fresh_addr w' assms(1) by simp
qed

theorem constructor_copies_witness:
  "(0::nat) < next_addr acme_world \<and>
   TickClient_constructor (Reference 0) acme_world = (Inr acme_client, acme_ready) \<and>
   get_prop (heap acme_world 0) ''debug'' = JBool True \<and>
   this_config acme_client \<noteq> 0 \<and>
   heap acme_ready (this_config acme_client) =
     [(''subscriptionId'', JStr ''acme''), (''apiToken'', JStr ''tok''),
      (''userAgent'', JStr ''App/1.0'')] \<and>
   heap acme_ready 0 = heap acme_world 0 \<and>
   fst (TickClient_method (answering 200 ''OK'') acme_client GetClients
          (acme_ready\<lparr>heap := (heap acme_ready)(0 := [])\<rparr>)) =
     fst (TickClient_method (answering 200 ''OK'') acme_client GetClients acme_ready)"
proof -
  have alloc: "(0::nat) < next_addr acme_world"
    by (simp add: acme_world_def)
  have "fst (TickClient_constructor (Reference 0) acme_world) = Inr acme_client"
    by code_simp
  then have built: "TickClient_constructor (Reference 0) acme_world = (Inr acme_client, acme_ready)"
    by (simp add: acme_ready_def prod_eq_iff)
  have extra: "get_prop (heap acme_world 0) ''debug'' = JBool True"
    by code_simp
  have fields:
    "get_prop (heap acme_world 0) ''subscriptionId'' = JStr ''acme''"
    "get_prop (heap acme_world 0) ''apiToken'' = JStr ''tok''"
    "get_prop (heap acme_world 0) ''userAgent'' = JStr ''App/1.0''"
    by code_simp+
  show ?thesis
    using constructor_copies [OF alloc built] alloc built extra fields
    by simp
qed

subsection \<open>The entries precondition\<close>

lemma entries_rejected:
  assumes "entries_params c = Some params" and "\<not> entries_rule params"
  shows "endpoint E c w =
           (Inl (Error ''Either start_date and end_date OR updated_at must be provided''), w)"
  using assms
  by (cases c) (auto simp: op_defs entries_rule_def throw_def)

lemma entries_proceeds:
  assumes "entries_params c = Some params" and "entries_rule params"
    and "globalConfig w = Some a"
  shows "map req_method (issued E c w) = [GET]"
  using assms
  by (cases c)
     (auto simp: op_defs entries_rule_def issued_def request_active Let_def split: sum.splits)

lemma method_rejected:
  assumes "endpoint E c (w\<lparr>globalConfig := Some (this_config this)\<rparr>) =
             (Inl e, w\<lparr>globalConfig := Some (this_config this)\<rparr>)"
  shows "TickClient_method E this c w = (Inl e, w)"
  using assms by (simp add: method_unfold)

text \<open>
  C2, as the code has it. For each of the four entries-listing operations: when
  start_date and end_date are not both truthy (for strings: non-empty) and updated_at is
  not truthy either, the call fails with the error "Either start_date and end_date OR
  updated_at must be provided" and the state, with its record of transport calls, is
  unchanged; otherwise exactly one request, a GET, goes to the transport, provided a
  configuration is active, as it always is in a call through the client.
\<close>

theorem entries_precondition:
  assumes "entries_params c = Some params"
  shows "(\<not> entries_rule params \<longrightarrow>
            endpoint E c w =
              (Inl (Error ''Either start_date and end_date OR updated_at must be provided''), w) \<and>
            TickClient_method E this c w =
              (Inl (Error ''Either start_date and end_date OR updated_at must be provided''), w)) \<and>
         (entries_rule params \<longrightarrow>
            (\<forall>a. globalConfig w = Some a \<longrightarrow> map req_method (issued E c w) = [GET]) \<and>
            map req_method (issued E c (w\<lparr>globalConfig := Some (this_config this)\<rparr>)) = [GET] \<and>
            length (calls (snd (TickClient_method E this c w))) = Suc (length (calls w)))"
proof -
  let ?w1 = "w\<lparr>globalConfig := Some (this_config this)\<rparr>"
  have run: "map req_method (issued E c ?w1) = [GET]" if "entries_rule params"
    using entries_proceeds [OF assms that, of ?w1] by simp
  have "length (calls (snd (endpoint E c ?w1))) = Suc (length (calls ?w1))" if "entries_rule params"
  proof -
    have "length (issued E c ?w1) = 1"
      using run [OF that] by (metis length_map length_Cons list.size(3) One_nat_def)
    then show ?thesis
      by (simp add: issued_def)
  qed
  then have "length (calls (snd (TickClient_method E this c w))) = Suc (length (calls w))"
    if "entries_rule params"
    using that by (simp add: method_unfold)
  then show ?thesis
    using run entries_proceeds [OF assms] entries_rejected [OF assms]
          method_rejected [where E = E and c = c and w = w and this = this]
    by auto
qed

theorem entries_precondition_witness:
  "entries_params (GetEntries []) = Some [] \<and> \<not> entries_rule [] \<and>
   TickClient_method (answering 200 ''OK'') acme_client (GetEntries []) acme_ready =
     (Inl (Error ''Either start_date and end_date OR updated_at must be provided''), acme_ready) \<and>
   entries_params (GetTaskEntries (Number ''7'') [(''updated_at'', JStr ''2024-01-01T00:00:00Z'')]) =
     Some [(''updated_at'', JStr ''2024-01-01T00:00:00Z'')] \<and>
   entries_rule [(''updated_at'', JStr ''2024-01-01T00:00:00Z'')] \<and>
   globalConfig (acme_ready\<lparr>globalConfig := Some 2\<rparr>) = Some 2 \<and>
   map req_method
     (issued (answering 200 ''OK'') (GetTaskEntries (Number ''7'') [(''updated_at'', JStr ''2024-01-01T00:00:00Z'')])
        (acme_ready\<lparr>globalConfig := Some 2\<rparr>)) = [GET] \<and>
   length (calls (snd (TickClient_method (answering 200 ''OK'') acme_client
                         (GetTaskEntries (Number ''7'') [(''updated_at'', JStr ''2024-01-01T00:00:00Z'')]) acme_ready))) =
     Suc (length (calls acme_ready))"
proof -
  have p1: "entries_params (GetEntries []) = Some []"
    by simp
  have r1: "\<not> entries_rule []"
    by (simp add: entries_rule_def get_prop_def)
  have p2: "entries_params (GetTaskEntries (Number ''7'') [(''updated_at'', JStr ''2024-01-01T00:00:00Z'')]) =
              Some [(''updated_at'', JStr ''2024-01-01T00:00:00Z'')]"
    by simp
  have r2: "entries_rule [(''updated_at'', JStr ''2024-01-01T00:00:00Z'')]"
    by (simp add: entries_rule_def get_prop_def)
  note a = entries_precondition [OF p1, of "answering 200 ''OK''" acme_ready acme_client]
  note b = entries_precondition [OF p2, of "answering 200 ''OK''" "acme_ready\<lparr>globalConfig := Some 2\<rparr>"
                                    acme_client]
  note c = entries_precondition [OF p2, of "answering 200 ''OK''" acme_ready acme_client]
  show ?thesis
    using a b c p1 p2 r1 r2 by simp
qed

text \<open>
  C2 as stated fails: with start_date and end_date both supplied, end_date as the empty
  string, the call is refused and nothing reaches the transport.
\<close>

theorem entries_supplied_counterexample:
  "spec_entries_rule [(''start_date'', JStr ''2024-01-01''), (''end_date'', JStr '''')] \<and>
   fst (TickClient_method (answering 200 ''OK'') acme_client
          (GetEntries [(''start_date'', JStr ''2024-01-01''), (''end_date'', JStr '''')]) acme_ready) =
     Inl (Error ''Either start_date and end_date OR updated_at must be provided'') \<and>
   calls (snd (TickClient_method (answering 200 ''OK'') acme_client
          (GetEntries [(''start_date'', JStr ''2024-01-01''), (''end_date'', JStr '''')]) acme_ready)) =
     calls acme_ready"
  by code_simp

text \<open>
  C10. The precondition tests truthiness, so an empty string counts as absent. For each
  of the four entries-listing operations: with start_date a non-empty string, end_date
  the empty string and updated_at the empty string or absent, the call is refused with
  the cross-field error and no transport call; and with updated_at the empty string the
  call is refused whenever start_date and end_date are not both truthy.
\<close>

theorem entries_empty_string_absent:
  assumes "entries_params c = Some params"
  shows "(get_prop params ''start_date'' = JStr s \<and> s \<noteq> [] \<and>
          get_prop params ''end_date'' = JStr [] \<and>
          (get_prop params ''updated_at'' = JStr [] \<or> get_prop params ''updated_at'' = JUndefined) \<longrightarrow>
            endpoint E c w =
              (Inl (Error ''Either start_date and end_date OR updated_at must be provided''), w) \<and>
            TickClient_method E this c w =
              (Inl (Error ''Either start_date and end_date OR updated_at must be provided''), w)) \<and>
         (get_prop params ''updated_at'' = JStr [] \<and>
          (\<not> truthy (get_prop params ''start_date'') \<or> \<not> truthy (get_prop params ''end_date'')) \<longrightarrow>
            endpoint E c w =
              (Inl (Error ''Either start_date and end_date OR updated_at must be provided''), w) \<and>
            TickClient_method E this c w =
              (Inl (Error ''Either start_date and end_date OR updated_at must be provided''), w))"
proof -
  have "endpoint E c w' =
          (Inl (Error ''Either start_date and end_date OR updated_at must be provided''), w')"
    if "\<not> entries_rule params" for w'
    using entries_rejected [OF assms that] .
  then have "endpoint E c w =
          (Inl (Error ''Either start_date and end_date OR updated_at must be provided''), w) \<and>
        TickClient_method E this c w =
          (Inl (Error ''Either start_date and end_date OR updated_at must be provided''), w)"
    if "\<not> entries_rule params"
    using that method_rejected [where E = E and c = c and w = w and this = this] by simp
  then show ?thesis
    by (auto simp: entries_rule_def)
qed

theorem entries_empty_string_absent_witness:
  "entries_params (GetProjectEntries (Number ''3'') [(''start_date'', JStr ''2024-01-01''), (''end_date'', JStr ''''),
                                         (''updated_at'', JStr '''')]) =
     Some [(''start_date'', JStr ''2024-01-01''), (''end_date'', JStr ''''), (''updated_at'', JStr '''')] \<and>
   TickClient_method (answering 200 ''OK'') acme_client
     (GetProjectEntries (Number ''3'') [(''start_date'', JStr ''2024-01-01''), (''end_date'', JStr ''''),
                           (''updated_at'', JStr '''')]) acme_ready =
     (Inl (Error ''Either start_date and end_date OR updated_at must be provided''), acme_ready) \<and>
   endpoint (answering 200 ''OK'') (GetEntries [(''updated_at'', JStr '''')]) acme_ready =
     (Inl (Error ''Either start_date and end_date OR updated_at must be provided''), acme_ready)"
proof -
  let ?ps = "[(''start_date'', JStr ''2024-01-01''), (''end_date'', JStr ''''), (''updated_at'', JStr '''')]"
  have p1: "entries_params (GetProjectEntries (Number ''3'') ?ps) = Some ?ps"
    by simp
  have p2: "entries_params (GetEntries [(''updated_at'', JStr '''')]) = Some [(''updated_at'', JStr '''')]"
    by simp
  note a = entries_empty_string_absent
             [OF p1, of "''2024-01-01''" "answering 200 ''OK''" acme_ready acme_client]
  note b = entries_empty_string_absent
             [OF p2, of "''2024-01-01''" "answering 200 ''OK''" acme_ready acme_client]
  show ?thesis
    using a b p1 by (simp add: get_prop_def)
qed

subsection \<open>Status mapping\<close>

lemma endpoint_failure:
  assumes "\<forall>q. transport E q = Inr r" and "\<not> res_ok r"
    and "passes_precondition c" and "globalConfig w = Some a"
  shows "fst (endpoint E c w) = Inl (Error (failure_message c r))"
  using assms
  by (cases c)
     (auto simp: op_defs request_active failure_message_def res_ok_def passes_precondition_def
                 entries_rule_def Let_def
           split: if_splits)

text \<open>
  C3, as the code has it. A call that passes its precondition, under an active
  configuration and so in every call through the client, issues exactly one request.
  When the transport answers it with a non-success status: the eleven operations
  reserved to administrators (getDeletedUsers, createUser, the create, update and delete
  of clients, projects and tasks) fail on status 403 with their own message naming that
  privilege; deleteClient and deleteTask fail on status 406 with their fixed message
  about the projects or entries still attached; and every other case, status 403 on the
  remaining twenty operations included, fails with the generic message that ends with
  the status code and the transport's status text.
\<close>

theorem status_mapping:
  assumes "\<forall>q. transport E q = Inr r" and "\<not> res_ok r" and "passes_precondition c"
  shows "(globalConfig w = Some a \<longrightarrow>
            length (issued E c w) = 1 \<and>
            fst (endpoint E c w) = Inl (Error (failure_message c r))) \<and>
         length (calls (snd (TickClient_method E this c w))) = Suc (length (calls w)) \<and>
         fst (TickClient_method E this c w) = Inl (Error (failure_message c r))"
proof -
  let ?w1 = "w\<lparr>globalConfig := Some (this_config this)\<rparr>"
  have one: "length (issued E c w') = 1" if "globalConfig w' = Some a'" for w' a'
    using endpoint_issues [OF that assms(3), of E]
    by (metis length_map length_Cons list.size(3) One_nat_def)
  have "length (issued E c ?w1) = 1"
    using one [of ?w1] by simp
  then have "length (calls (snd (endpoint E c ?w1))) = Suc (length (calls w))"
    by (simp add: issued_def)
  then show ?thesis
    using one [of w a] endpoint_failure [OF assms, of w a]
          endpoint_failure [OF assms, of ?w1 "this_config this"]
    by (simp add: method_unfold)
qed

theorem status_mapping_witness:
  "fst (TickClient_method (answering 403 ''Forbidden'') acme_client (DeleteClient (Number ''7'')) acme_ready) =
     Inl (Error ''Forbidden: Only administrators can delete clients'') \<and>
   fst (TickClient_method (answering 406 ''Not Acceptable'') acme_client (DeleteClient (Number ''7'')) acme_ready) =
     Inl (Error ''Client cannot be deleted because it still has associated projects'') \<and>
   fst (TickClient_method (answering 500 ''Internal Server Error'') acme_client
          (DeleteClient (Number ''1152921504606847000'')) acme_ready) =
     Inl (Error ''Failed to delete client with ID 1152921504606847000: 500 Internal Server Error'') \<and>
   length (calls (snd (TickClient_method (answering 500 ''Internal Server Error'') acme_client
          (DeleteClient (Number ''1152921504606847000'')) acme_ready))) = Suc (length (calls acme_ready)) \<and>
   fst (TickClient_method (answering 403 ''Forbidden'') acme_client
          (GetUserEntries (Number ''4'') [(''updated_at'', JStr ''2024-01-01'')]) acme_ready) =
     Inl (Error ''Failed to fetch entries for user 4: 403 Forbidden'') \<and>
   length (issued (answering 406 ''Not Acceptable'') (DeleteTask ''42'') (acme_ready\<lparr>globalConfig := Some 2\<rparr>)) = 1 \<and>
   fst (endpoint (answering 406 ''Not Acceptable'') (DeleteTask ''42'') (acme_ready\<lparr>globalConfig := Some 2\<rparr>)) =
     Inl (Error ''Failed to delete task: Only tasks without any entries can be deleted'')"
proof -
  let ?r = "\<lambda>code msg. \<lparr>res_status = code, res_statusText = msg, res_json = Inr JNull\<rparr>"
  let ?big = "DeleteClient (Number ''1152921504606847000'')"
  let ?list = "GetUserEntries (Number ''4'') [(''updated_at'', JStr ''2024-01-01'')]"
  have t: "\<forall>q. transport (answering code msg) q = Inr (?r code msg)" for code msg
    by (simp add: answering_def)
  have n: "\<not> res_ok (?r 403 ''Forbidden'')" "\<not> res_ok (?r 406 ''Not Acceptable'')"
          "\<not> res_ok (?r 500 ''Internal Server Error'')"
    by (simp_all add: res_ok_def)
  have pre: "passes_precondition (DeleteClient (Number ''7''))" "passes_precondition ?big"
            "passes_precondition ?list" "passes_precondition (DeleteTask ''42'')"
    by (simp_all add: passes_precondition_def entries_rule_def get_prop_def)
  have cfg: "globalConfig (acme_ready\<lparr>globalConfig := Some 2\<rparr>) = Some 2"
    by simp
  have m: "failure_message (DeleteClient (Number ''7'')) (?r 403 ''Forbidden'') =
             ''Forbidden: Only administrators can delete clients''"
          "failure_message (DeleteClient (Number ''7'')) (?r 406 ''Not Acceptable'') =
             ''Client cannot be deleted because it still has associated projects''"
          "failure_message ?big (?r 500 ''Internal Server Error'') =
             ''Failed to delete client with ID 1152921504606847000: 500 Internal Server Error''"
          "failure_message ?list (?r 403 ''Forbidden'') =
             ''Failed to fetch entries for user 4: 403 Forbidden''"
          "failure_message (DeleteTask ''42'') (?r 406 ''Not Acceptable'') =
             ''Failed to delete task: Only tasks without any entries can be deleted''"
    by code_simp+
  show ?thesis
    using status_mapping [OF t n(1) pre(1), of acme_ready 2 acme_client]
          status_mapping [OF t n(2) pre(1), of acme_ready 2 acme_client]
          status_mapping [OF t n(3) pre(2), of acme_ready 2 acme_client]
          status_mapping [OF t n(1) pre(3), of acme_ready 2 acme_client]
          status_mapping [OF t n(2) pre(4), of "acme_ready\<lparr>globalConfig := Some 2\<rparr>" 2 acme_client]
          cfg m
    by simp
qed

text \<open>
  C3 as stated fails: getClients has no message of its own for status 403, and answers
  it with the generic failure message.
\<close>

theorem forbidden_counterexample:
  "\<not> res_ok \<lparr>res_status = 403, res_statusText = ''Forbidden'', res_json = Inr JNull\<rparr> \<and>
   fst (TickClient_method (answering 403 ''Forbidden'') acme_client GetClients acme_ready) =
     Inl (Error ''Failed to fetch clients: 403 Forbidden'') \<and>
   fst (TickClient_method (answering 500 ''Internal Server Error'') acme_client GetClients acme_ready) =
     Inl (Error ''Failed to fetch clients: 500 Internal Server Error'')"
  by code_simp

subsection \<open>Query strings\<close>

lemma append_defined_spec: "append_defined params queryParams = queryParams @ spec_query params"
  by (induction params arbitrary: queryParams) (auto simp: spec_query_def)

lemma urlencode_page: "urlencode ''page'' = ''page''"
  by (simp add: urlencode_def urlencode_byte_def urlencoded_plain_def)

lemma page_toString:
  "URLSearchParams_toString [(''page'', v)] = ''page='' @ urlencode v"
  by (simp add: URLSearchParams_toString_def urlencode_page)

lemma empty_toString: "URLSearchParams_toString [] = []"
  by (simp add: URLSearchParams_toString_def)

lemma projects_url:
  assumes "globalConfig w = Some a"
  shows "map req_url (issued E (GetProjects arg) w) = [api_url w a (''projects.json'' @ page_query arg)]"
    and "map req_url (issued E (GetClosedProjects arg) w) =
           [api_url w a (''projects/closed.json'' @ page_query arg)]"
proof -
  let ?page = "get_prop (case arg of None \<Rightarrow> [] | Some params \<Rightarrow> params) ''page''"
  show "map req_url (issued E (GetProjects arg) w) = [api_url w a (''projects.json'' @ page_query arg)]"
  proof (cases "truthy ?page")
    case True
    with assms show ?thesis
      by (simp add: getProjects_def issued_def request_active page_query_def page_toString Let_def
               split: sum.splits)
  next
    case False
    with assms show ?thesis
      by (simp add: getProjects_def issued_def request_active page_query_def empty_toString Let_def
               split: sum.splits)
  qed
  show "map req_url (issued E (GetClosedProjects arg) w) =
          [api_url w a (''projects/closed.json'' @ page_query arg)]"
  proof (cases "truthy ?page")
    case True
    with assms show ?thesis
      by (simp add: getClosedProjects_def issued_def request_active page_query_def page_toString
                    Let_def
               split: sum.splits)
  next
    case False
    with assms show ?thesis
      by (simp add: getClosedProjects_def issued_def request_active page_query_def empty_toString
                    Let_def
               split: sum.splits)
  qed
qed

lemma entries_url:
  assumes "globalConfig w = Some a" and "entries_rule params"
  shows "map req_url (issued E (GetEntries params) w) =
           [api_url w a (''entries.json?'' @ URLSearchParams_toString (spec_query params))]"
    and "map req_url (issued E (GetUserEntries userId params) w) =
           [api_url w a (''users/'' @ Number_toString userId @ ''/entries.json?'' @
                         URLSearchParams_toString (spec_query params))]"
    and "map req_url (issued E (GetProjectEntries projectId params) w) =
           [api_url w a (''projects/'' @ Number_toString projectId @ ''/entries.json?'' @
                         URLSearchParams_toString (spec_query params))]"
    and "map req_url (issued E (GetTaskEntries taskId params) w) =
           [api_url w a (''tasks/'' @ Number_toString taskId @ ''/entries.json?'' @
                         URLSearchParams_toString (spec_query params))]"
  using assms
  by (auto simp: getEntries_def getUserEntries_def getProjectEntries_def getTaskEntries_def
                 issued_def request_active append_defined_spec entries_rule_def Let_def
           split: sum.splits)

text \<open>
  C7, as the code has it. With a configuration active, an entries-listing call that
  passes its precondition requests its path followed by \<open>?\<close> and the URL-encoded
  serialisation of exactly the properties of the filter object that are not
  \<open>undefined\<close>, each value converted to a string on its own. The two project listings
  look at the page only: they request their path followed by \<open>?page=\<close> and the encoded
  page when the page is truthy, and the bare path otherwise.
\<close>

theorem query_strings:
  assumes "globalConfig w = Some a"
  shows "(entries_rule params \<longrightarrow>
            map req_url (issued E (GetEntries params) w) =
              [api_url w a (''entries.json?'' @ URLSearchParams_toString (spec_query params))] \<and>
            map req_url (issued E (GetUserEntries userId params) w) =
              [api_url w a (''users/'' @ Number_toString userId @ ''/entries.json?'' @
                            URLSearchParams_toString (spec_query params))] \<and>
            map req_url (issued E (GetProjectEntries projectId params) w) =
              [api_url w a (''projects/'' @ Number_toString projectId @ ''/entries.json?'' @
                            URLSearchParams_toString (spec_query params))] \<and>
            map req_url (issued E (GetTaskEntries taskId params) w) =
              [api_url w a (''tasks/'' @ Number_toString taskId @ ''/entries.json?'' @
                            URLSearchParams_toString (spec_query params))]) \<and>
         map req_url (issued E (GetProjects arg) w) =
           [api_url w a (''projects.json'' @ page_query arg)] \<and>
         map req_url (issued E (GetClosedProjects arg) w) =
           [api_url w a (''projects/closed.json'' @ page_query arg)]"
  using entries_url [OF assms] projects_url [OF assms] by simp

theorem query_strings_witness:
  "globalConfig (acme_ready\<lparr>globalConfig := Some 2\<rparr>) = Some 2 \<and>
   entries_rule [(''start_date'', JStr ''2024-01-01''), (''end_date'', JStr ''2024-01-31''),
      (''task_id'', JUndefined), (''billable'', JBool True),
      (''user_id'', JNum (Number ''1152921504606847000'')),
      (''updated_at'', JStr ''2024-01-01T10:00:00+02:00''),
      (''notes'', JStr (''a b/'' @ [CHR 0xC3, CHR 0xA9] @ ''~*_''))] \<and>
   map req_url
     (issued (answering 200 ''OK'') (GetEntries [(''start_date'', JStr ''2024-01-01''), (''end_date'', JStr ''2024-01-31''),
      (''task_id'', JUndefined), (''billable'', JBool True),
      (''user_id'', JNum (Number ''1152921504606847000'')),
      (''updated_at'', JStr ''2024-01-01T10:00:00+02:00''),
      (''notes'', JStr (''a b/'' @ [CHR 0xC3, CHR 0xA9] @ ''~*_''))]) (acme_ready\<lparr>globalConfig := Some 2\<rparr>)) =
     [''https://www.tickspot.com/acme/api/v2/entries.json?start_date=2024-01-01&end_date=2024-01-31&billable=true&user_id=1152921504606847000&updated_at=2024-01-01T10%3A00%3A00%2B02%3A00&notes=a+b%2F%C3%A9%7E*_''] \<and>
   map req_url
     (issued (answering 200 ''OK'') (GetUserEntries (Number ''1.5'') [(''start_date'', JStr ''2024-01-01''), (''end_date'', JStr ''2024-01-31''),
      (''task_id'', JUndefined), (''billable'', JBool True),
      (''user_id'', JNum (Number ''1152921504606847000'')),
      (''updated_at'', JStr ''2024-01-01T10:00:00+02:00''),
      (''notes'', JStr (''a b/'' @ [CHR 0xC3, CHR 0xA9] @ ''~*_''))])
        (acme_ready\<lparr>globalConfig := Some 2\<rparr>)) =
     [''https://www.tickspot.com/acme/api/v2/users/1.5/entries.json?start_date=2024-01-01&end_date=2024-01-31&billable=true&user_id=1152921504606847000&updated_at=2024-01-01T10%3A00%3A00%2B02%3A00&notes=a+b%2F%C3%A9%7E*_''] \<and>
   map req_url
     (issued (answering 200 ''OK'') (GetProjects (Some [(''page'', JNum (Number ''2''))]))
        (acme_ready\<lparr>globalConfig := Some 2\<rparr>)) =
     [''https://www.tickspot.com/acme/api/v2/projects.json?page=2''] \<and>
   map req_url
     (issued (answering 200 ''OK'') (GetClosedProjects (Some [(''page'', JNum (Number ''NaN''))]))
        (acme_ready\<lparr>globalConfig := Some 2\<rparr>)) =
     [''https://www.tickspot.com/acme/api/v2/projects/closed.json''] \<and>
   map req_url
     (issued (answering 200 ''OK'') (GetClosedProjects None) (acme_ready\<lparr>globalConfig := Some 2\<rparr>)) =
     [''https://www.tickspot.com/acme/api/v2/projects/closed.json'']"
proof -
  let ?w = "acme_ready\<lparr>globalConfig := Some 2\<rparr>"
  let ?ps = "[(''start_date'', JStr ''2024-01-01''), (''end_date'', JStr ''2024-01-31''),
      (''task_id'', JUndefined), (''billable'', JBool True),
      (''user_id'', JNum (Number ''1152921504606847000'')),
      (''updated_at'', JStr ''2024-01-01T10:00:00+02:00''),
      (''notes'', JStr (''a b/'' @ [CHR 0xC3, CHR 0xA9] @ ''~*_''))]"
  have cfg: "globalConfig ?w = Some 2"
    by simp
  have rule: "entries_rule ?ps"
    by code_simp
  have urls:
    "api_url ?w 2 (''entries.json?'' @ URLSearchParams_toString (spec_query ?ps)) =
       ''https://www.tickspot.com/acme/api/v2/entries.json?start_date=2024-01-01&end_date=2024-01-31&billable=true&user_id=1152921504606847000&updated_at=2024-01-01T10%3A00%3A00%2B02%3A00&notes=a+b%2F%C3%A9%7E*_''"
    "api_url ?w 2 (''users/'' @ Number_toString (Number ''1.5'') @ ''/entries.json?'' @
                   URLSearchParams_toString (spec_query ?ps)) =
       ''https://www.tickspot.com/acme/api/v2/users/1.5/entries.json?start_date=2024-01-01&end_date=2024-01-31&billable=true&user_id=1152921504606847000&updated_at=2024-01-01T10%3A00%3A00%2B02%3A00&notes=a+b%2F%C3%A9%7E*_''"
    "api_url ?w 2 (''projects.json'' @ page_query (Some [(''page'', JNum (Number ''2''))])) =
       ''https://www.tickspot.com/acme/api/v2/projects.json?page=2''"
    "api_url ?w 2 (''projects/closed.json'' @ page_query (Some [(''page'', JNum (Number ''NaN''))])) =
       ''https://www.tickspot.com/acme/api/v2/projects/closed.json''"
    "api_url ?w 2 (''projects/closed.json'' @ page_query None) =
       ''https://www.tickspot.com/acme/api/v2/projects/closed.json''"
    by code_simp+
  note a = query_strings [OF cfg, of ?ps "answering 200 ''OK''" "Number ''1.5''" "Number ''1.5''"
                             "Number ''1.5''" "Some [(''page'', JNum (Number ''2''))]"]
  note b = query_strings [OF cfg, of ?ps "answering 200 ''OK''" "Number ''1.5''" "Number ''1.5''"
                             "Number ''1.5''" "Some [(''page'', JNum (Number ''NaN''))]"]
  note c = query_strings [OF cfg, of ?ps "answering 200 ''OK''" "Number ''1.5''" "Number ''1.5''"
                             "Number ''1.5''" None]
  show ?thesis
    using a b c rule urls by simp
qed

text \<open>
  C7 as stated fails: a page of 0 is a defined property of the filter object, yet the
  request carries no query string.
\<close>

theorem page_zero_counterexample:
  "spec_query [(''page'', JNum (Number ''0''))] = [(''page'', ''0'')] \<and>
   map req_url (calls (snd (TickClient_method (answering 200 ''OK'') acme_client
                              (GetProjects (Some [(''page'', JNum (Number ''0''))])) acme_ready))) =
     [''https://www.tickspot.com/acme/api/v2/projects.json'']"
  by code_simp

subsection \<open>Request bodies\<close>

text \<open>
  C8. With a configuration active, each create operation issues one POST request whose
  body is the JSON text of the caller's parameter object; createUser puts that object
  under the key "user" and createProject under the key "project", while createClient,
  createTask and createEntry send it as it is.
\<close>

theorem create_bodies:
  assumes "globalConfig w = Some a"
  shows "map (\<lambda>q. (req_method q, req_body q)) (issued E (CreateUser params) w) =
           [(POST, Some (''{'' @ QuoteJSONString ''user'' @ '':'' @
                         the (JSON_stringify (JObj params)) @ ''}''))] \<and>
         map (\<lambda>q. (req_method q, req_body q)) (issued E (CreateProject params) w) =
           [(POST, Some (''{'' @ QuoteJSONString ''project'' @ '':'' @
                         the (JSON_stringify (JObj params)) @ ''}''))] \<and>
         map (\<lambda>q. (req_method q, req_body q)) (issued E (CreateClient params) w) =
           [(POST, JSON_stringify (JObj params))] \<and>
         map (\<lambda>q. (req_method q, req_body q)) (issued E (CreateTask params) w) =
           [(POST, JSON_stringify (JObj params))] \<and>
         map (\<lambda>q. (req_method q, req_body q)) (issued E (CreateEntry params) w) =
           [(POST, JSON_stringify (JObj params))] \<and>
         JSON_stringify (JObj [(''user'', JObj params)]) =
           Some (''{'' @ QuoteJSONString ''user'' @ '':'' @ the (JSON_stringify (JObj params)) @ ''}'') \<and>
         JSON_stringify (JObj [(''project'', JObj params)]) =
           Some (''{'' @ QuoteJSONString ''project'' @ '':'' @ the (JSON_stringify (JObj params)) @ ''}'') \<and>
         JSON_stringify (JObj params) \<noteq> None"
  using assms
  by (auto simp: createUser_def createProject_def createClient_def createTask_def createEntry_def
                 issued_def request_active
           split: sum.splits)

theorem create_bodies_witness:
  "globalConfig (acme_ready\<lparr>globalConfig := Some 2\<rparr>) = Some 2 \<and>
   map (\<lambda>q. (req_method q, req_body q))
     (issued (answering 200 ''OK'') (CreateUser [(''first_name'', JStr ''Ann''), (''admin'', JBool False)]) (acme_ready\<lparr>globalConfig := Some 2\<rparr>)) =
     [(POST, Some (''{'' @ [CHR 0x22] @ ''user'' @ [CHR 0x22] @ '':{'' @ [CHR 0x22] @ ''first_name'' @ [CHR 0x22] @ '':'' @ [CHR 0x22] @ ''Ann'' @ [CHR 0x22] @ '','' @ [CHR 0x22] @ ''admin'' @ [CHR 0x22] @ '':false}}''))] \<and>
   map (\<lambda>q. (req_method q, req_body q))
     (issued (answering 200 ''OK'') (CreateProject [(''name'', JStr ''Site''), (''budget'', JNum (Number ''12.25''))]) (acme_ready\<lparr>globalConfig := Some 2\<rparr>)) =
     [(POST, Some (''{'' @ [CHR 0x22] @ ''project'' @ [CHR 0x22] @ '':{'' @ [CHR 0x22] @ ''name'' @ [CHR 0x22] @ '':'' @ [CHR 0x22] @ ''Site'' @ [CHR 0x22] @ '','' @ [CHR 0x22] @ ''budget'' @ [CHR 0x22] @ '':12.25}}''))] \<and>
   map (\<lambda>q. (req_method q, req_body q))
     (issued (answering 200 ''OK'')
        (CreateEntry [(''notes'', JStr (''say '' @ [CHR 0x22] @ ''hi'' @
                       [CHR 0x22, CHR 0x5C, CHR 0x0A, CHR 0x1F, CHR 0xC3, CHR 0xA9,
                        CHR 0x08, CHR 0x0C, CHR 0x0D, CHR 0x09, CHR 0x7F])),
      (''hours'', JNum (Number ''1.5'')), (''task_id'', JNum (Number ''1152921504606847000'')),
      (''rate'', JNum (Number ''NaN'')), (''cap'', JNum (Number ''-Infinity'')),
      (''top'', JNum (Number ''Infinity'')), (''user_id'', JUndefined),
      (''billed'', JBool False), (''extra'', JNull)])
        (acme_ready\<lparr>globalConfig := Some 2\<rparr>)) =
     [(POST, Some (''{'' @ [CHR 0x22] @ ''notes'' @ [CHR 0x22] @ '':'' @ [CHR 0x22] @ ''say '' @ [CHR 0x5C, CHR 0x22] @ ''hi'' @ [CHR 0x5C, CHR 0x22, CHR 0x5C, CHR 0x5C, CHR 0x5C] @ ''n'' @ [CHR 0x5C] @ ''u001f'' @ [CHR 0xC3, CHR 0xA9, CHR 0x5C] @ ''b'' @ [CHR 0x5C] @ ''f'' @ [CHR 0x5C] @ ''r'' @ [CHR 0x5C] @ ''t'' @ [CHR 0x7F, CHR 0x22] @ '','' @ [CHR 0x22] @ ''hours'' @ [CHR 0x22] @ '':1.5,'' @ [CHR 0x22] @ ''task_id'' @ [CHR 0x22] @ '':1152921504606847000,'' @ [CHR 0x22] @ ''rate'' @ [CHR 0x22] @ '':null,'' @ [CHR 0x22] @ ''cap'' @ [CHR 0x22] @ '':null,'' @ [CHR 0x22] @ ''top'' @ [CHR 0x22] @ '':null,'' @ [CHR 0x22] @ ''billed'' @ [CHR 0x22] @ '':false,'' @ [CHR 0x22] @ ''extra'' @ [CHR 0x22] @ '':null}''))]"
proof -
  let ?w = "acme_ready\<lparr>globalConfig := Some 2\<rparr>"
  let ?entry = "[(''notes'', JStr (''say '' @ [CHR 0x22] @ ''hi'' @
                       [CHR 0x22, CHR 0x5C, CHR 0x0A, CHR 0x1F, CHR 0xC3, CHR 0xA9,
                        CHR 0x08, CHR 0x0C, CHR 0x0D, CHR 0x09, CHR 0x7F])),
      (''hours'', JNum (Number ''1.5'')), (''task_id'', JNum (Number ''1152921504606847000'')),
      (''rate'', JNum (Number ''NaN'')), (''cap'', JNum (Number ''-Infinity'')),
      (''top'', JNum (Number ''Infinity'')), (''user_id'', JUndefined),
      (''billed'', JBool False), (''extra'', JNull)]"
  have cfg: "globalConfig ?w = Some 2"
    by simp
  have texts:
    "''{'' @ QuoteJSONString ''user'' @ '':'' @ the (JSON_stringify (JObj [(''first_name'', JStr ''Ann''), (''admin'', JBool False)])) @ ''}'' =
     ''{'' @ [CHR 0x22] @ ''user'' @ [CHR 0x22] @ '':{'' @ [CHR 0x22] @ ''first_name'' @ [CHR 0x22] @ '':'' @ [CHR 0x22] @ ''Ann'' @ [CHR 0x22] @ '','' @ [CHR 0x22] @ ''admin'' @ [CHR 0x22] @ '':false}}''"
    "''{'' @ QuoteJSONString ''project'' @ '':'' @ the (JSON_stringify (JObj [(''name'', JStr ''Site''), (''budget'', JNum (Number ''12.25''))])) @ ''}'' =
     ''{'' @ [CHR 0x22] @ ''project'' @ [CHR 0x22] @ '':{'' @ [CHR 0x22] @ ''name'' @ [CHR 0x22] @ '':'' @ [CHR 0x22] @ ''Site'' @ [CHR 0x22] @ '','' @ [CHR 0x22] @ ''budget'' @ [CHR 0x22] @ '':12.25}}''"
    "JSON_stringify (JObj ?entry) =
     Some (''{'' @ [CHR 0x22] @ ''notes'' @ [CHR 0x22] @ '':'' @ [CHR 0x22] @ ''say '' @ [CHR 0x5C, CHR 0x22] @ ''hi'' @ [CHR 0x5C, CHR 0x22, CHR 0x5C, CHR 0x5C, CHR 0x5C] @ ''n'' @ [CHR 0x5C] @ ''u001f'' @ [CHR 0xC3, CHR 0xA9, CHR 0x5C] @ ''b'' @ [CHR 0x5C] @ ''f'' @ [CHR 0x5C] @ ''r'' @ [CHR 0x5C] @ ''t'' @ [CHR 0x7F, CHR 0x22] @ '','' @ [CHR 0x22] @ ''hours'' @ [CHR 0x22] @ '':1.5,'' @ [CHR 0x22] @ ''task_id'' @ [CHR 0x22] @ '':1152921504606847000,'' @ [CHR 0x22] @ ''rate'' @ [CHR 0x22] @ '':null,'' @ [CHR 0x22] @ ''cap'' @ [CHR 0x22] @ '':null,'' @ [CHR 0x22] @ ''top'' @ [CHR 0x22] @ '':null,'' @ [CHR 0x22] @ ''billed'' @ [CHR 0x22] @ '':false,'' @ [CHR 0x22] @ ''extra'' @ [CHR 0x22] @ '':null}'')"
    by code_simp+
  show ?thesis
    using create_bodies [OF cfg, of "answering 200 ''OK''" "[(''first_name'', JStr ''Ann''), (''admin'', JBool False)]"]
          create_bodies [OF cfg, of "answering 200 ''OK''" "[(''name'', JStr ''Site''), (''budget'', JNum (Number ''12.25''))]"]
          create_bodies [OF cfg, of "answering 200 ''OK''" ?entry]
          texts
    by simp
qed

end
